theory Spec2Isabelle
  imports Complex_Main
begin

section \<open>Values, shapes and errors\<close>

text \<open>
  The Python exceptions the modelled code can raise.  \<open>Exception\<close> carries the message of
  a \<^verbatim>\<open>raise Exception("...")\<close>; a failing \<^verbatim>\<open>assert\<close> is \<open>AssertionError\<close>; reading
  an attribute an object does not have is \<open>AttributeError\<close>; tuple unpacking of the wrong
  length is \<open>ValueError\<close>; a keyword call with a missing or an unexpected argument is
  \<open>TypeError\<close>; a missing dictionary key is \<open>KeyError\<close>.
\<close>

datatype error =
    AssertionError
  | AttributeError
  | KeyError
  | TypeError
  | ValueError
  | IndexError
  | RecursionError
  | Exception string

text \<open>A shape is a Python tuple of dimensions.\<close>

type_synonym shape = "nat list"

text \<open>Sequencing of computations that may raise.\<close>

definition bind_err :: "error + 'a \<Rightarrow> ('a \<Rightarrow> error + 'b) \<Rightarrow> error + 'b" where
  "bind_err m f = (case m of Inl e \<Rightarrow> Inl e | Inr x \<Rightarrow> f x)"

section \<open>Shape inference of the concrete nodes (matrix\_decompositions.py)\<close>

text \<open>
  \<^verbatim>\<open>NoisyGaussianMatrixProduct._compute_shape(self, A_shape, B_shape, std_shape)\<close>:
  \<^verbatim>\<open>N, K = A_shape; M, K2 = B_shape; assert(K == K2); return (N, M)\<close>.
  Unpacking a tuple that does not have two components raises \<open>ValueError\<close>.
\<close>

fun NGMP_compute_shape :: "shape \<Rightarrow> shape \<Rightarrow> shape \<Rightarrow> error + shape" where
  "NGMP_compute_shape [N, K] [M, K2] std_shape =
     (if K = K2 then Inr [N, M] else Inl AssertionError)"
| "NGMP_compute_shape A_shape B_shape std_shape = Inl ValueError"

text \<open>\<^verbatim>\<open>NoisyCumulativeSum._compute_shape(self, A_shape, std_shape)\<close>: \<^verbatim>\<open>return A_shape\<close>.\<close>

definition NCS_compute_shape :: "shape \<Rightarrow> shape \<Rightarrow> error + shape" where
  "NCS_compute_shape A_shape std_shape = Inr A_shape"

text \<open>
  \<^verbatim>\<open>NoisyLatentFeatures._compute_shape(self, B_shape, G_shape, std_shape)\<close>:
  \<^verbatim>\<open>N, K = B_shape; K2, M = G_shape; assert(K == K2); return (N, M)\<close>.
\<close>

fun NLF_compute_shape :: "shape \<Rightarrow> shape \<Rightarrow> shape \<Rightarrow> error + shape" where
  "NLF_compute_shape [N, K] [K2, M] std_shape =
     (if K = K2 then Inr [N, M] else Inl AssertionError)"
| "NLF_compute_shape B_shape G_shape std_shape = Inl ValueError"

text \<open>
  \<^verbatim>\<open>GMMClustering._compute_shape(self, weights_shape, centers_shape, std_shape)\<close> raises.
\<close>

definition GMM_compute_shape :: "shape \<Rightarrow> shape \<Rightarrow> shape \<Rightarrow> error + shape" where
  "GMM_compute_shape weights_shape centers_shape std_shape =
     Inl (Exception ''cannot infer shape for GMMClustering, must specify number of cluster draws'')"

text \<open>\<^verbatim>\<open>MultiplicativeGaussianNoise._compute_shape(self, A_shape, std_shape)\<close>.\<close>

definition MGN_compute_shape :: "shape \<Rightarrow> shape \<Rightarrow> error + shape" where
  "MGN_compute_shape A_shape std_shape = Inr A_shape"

section \<open>Arrays (numpy and tensorflow values)\<close>

text \<open>
  Array values are two-dimensional arrays of numbers, kept as the list of their rows; the
  entries are real numbers (the rounding, infinities and NaN of floating point and the
  wrap-around of the integer types are not modelled).  A scalar is the \<open>1 \<times> 1\<close> array,
  which numpy and tensorflow broadcast the same way as a scalar.  numpy, tensorflow and \<^verbatim>\<open>bayesflow.dists\<close> are libraries outside
  the two modelled files: the operations used by the code are written out here on rows
  of reals, and the random generator and the Gaussian log-density are parameters
  (\<open>env\<close> below).
\<close>

type_synonym matrix = "real list list"

datatype dtype = float32 | float64 | int32 | int64

definition nrows :: "matrix \<Rightarrow> nat" where
  "nrows a = length a"

definition ncols :: "matrix \<Rightarrow> nat" where
  "ncols a = (case a of [] \<Rightarrow> 0 | r # _ \<Rightarrow> length r)"

text \<open>\<^verbatim>\<open>np.asarray(value).shape\<close>; the empty list has shape \<^verbatim>\<open>(0,)\<close>.\<close>

definition np_shape :: "matrix \<Rightarrow> shape" where
  "np_shape a = (case a of [] \<Rightarrow> [0] | r # _ \<Rightarrow> [length a, length r])"

text \<open>
  Broadcasting of two dimensions: equal, or one of them is 1 and is stretched;
  anything else raises.
\<close>

definition bc_dim :: "nat \<Rightarrow> nat \<Rightarrow> nat option" where
  "bc_dim a b = (if a = b then Some a else if a = 1 then Some b
                 else if b = 1 then Some a else None)"

definition stretch :: "nat \<Rightarrow> 'a list \<Rightarrow> 'a list" where
  "stretch n xs = (if length xs = n then xs else replicate n (hd xs))"

definition broadcast2 :: "(real \<Rightarrow> real \<Rightarrow> real) \<Rightarrow> matrix \<Rightarrow> matrix \<Rightarrow> error + matrix" where
  "broadcast2 f a b =
     (case (bc_dim (nrows a) (nrows b), bc_dim (ncols a) (ncols b)) of
        (Some n, Some m) \<Rightarrow>
          Inr (map2 (map2 f) (map (stretch m) (stretch n a)) (map (stretch m) (stretch n b)))
      | _ \<Rightarrow> Inl ValueError)"

text \<open>The elementwise operators \<^verbatim>\<open>+\<close>, \<^verbatim>\<open>*\<close>, \<^verbatim>\<open>/\<close> of arrays and tensors.\<close>

definition arr_add :: "matrix \<Rightarrow> matrix \<Rightarrow> error + matrix" where
  "arr_add = broadcast2 (+)"

definition arr_mul :: "matrix \<Rightarrow> matrix \<Rightarrow> error + matrix" where
  "arr_mul = broadcast2 (*)"

definition arr_div :: "matrix \<Rightarrow> matrix \<Rightarrow> error + matrix" where
  "arr_div = broadcast2 (/)"

text \<open>An array divided by a Python number (\<^verbatim>\<open>prod /= float(K)\<close>, \<^verbatim>\<open>t / self.K\<close>).\<close>

definition arr_div_scalar :: "matrix \<Rightarrow> real \<Rightarrow> matrix" where
  "arr_div_scalar a c = map (map (\<lambda>x. x / c)) a"

text \<open>\<^verbatim>\<open>tf.square\<close>, \<^verbatim>\<open>tf.reduce_sum\<close> over all entries, \<^verbatim>\<open>B.T\<close> and \<^verbatim>\<open>tf.transpose\<close>.\<close>

definition tf_square :: "matrix \<Rightarrow> matrix" where
  "tf_square a = map (map (\<lambda>x. x * x)) a"

definition tf_reduce_sum :: "matrix \<Rightarrow> real" where
  "tf_reduce_sum a = sum_list (map sum_list a)"

definition tf_transpose :: "matrix \<Rightarrow> matrix" where
  "tf_transpose a = transpose a"

text \<open>
  \<^verbatim>\<open>np.dot(a, b)\<close> and \<^verbatim>\<open>tf.matmul(a, b)\<close> of an \<open>N \<times> K\<close> and a \<open>K \<times> M\<close> array; both
  raise when the inner dimensions differ.
\<close>

definition dot_row :: "real list \<Rightarrow> real list \<Rightarrow> real" where
  "dot_row r c = sum_list (map2 (*) r c)"

definition np_dot :: "matrix \<Rightarrow> matrix \<Rightarrow> error + matrix" where
  "np_dot a b =
     (if ncols a = nrows b then Inr (map (\<lambda>r. map (dot_row r) (transpose b)) a)
      else Inl ValueError)"

definition tf_matmul :: "matrix \<Rightarrow> matrix \<Rightarrow> error + matrix" where
  "tf_matmul a b = np_dot a b"

text \<open>\<^verbatim>\<open>np.cumsum(A, axis=0)\<close>: running sums down the rows.\<close>

fun cumsum_rows :: "real list \<Rightarrow> matrix \<Rightarrow> matrix" where
  "cumsum_rows acc [] = []"
| "cumsum_rows acc (r # rs) = map2 (+) acc r # cumsum_rows (map2 (+) acc r) rs"

definition np_cumsum0 :: "matrix \<Rightarrow> matrix" where
  "np_cumsum0 a = (case a of [] \<Rightarrow> [] | r # rs \<Rightarrow> r # cumsum_rows r rs)"

text \<open>
  A numpy array carries its dtype.  The arithmetic of two arrays gives the promoted type
  (\<^verbatim>\<open>np.promote_types\<close>): the common type when they agree, \<open>int64\<close> for the two integer
  types, \<open>float64\<close> otherwise.
\<close>

type_synonym ndarray = "dtype \<times> matrix"

abbreviation nd_dtype :: "ndarray \<Rightarrow> dtype" where
  "nd_dtype \<equiv> fst"

abbreviation nd_data :: "ndarray \<Rightarrow> matrix" where
  "nd_data \<equiv> snd"

definition is_integer_dtype :: "dtype \<Rightarrow> bool" where
  "is_integer_dtype d = (d = int32 \<or> d = int64)"

definition promote_types :: "dtype \<Rightarrow> dtype \<Rightarrow> dtype" where
  "promote_types a b =
     (if a = b then a
      else if is_integer_dtype a \<and> is_integer_dtype b then int64 else float64)"

text \<open>
  \<^verbatim>\<open>np.asarray(a, dtype=d)\<close> converts the entries to \<open>d\<close>: to an integer type by
  truncation towards zero, to a floating type without change.
\<close>

definition np_trunc :: "real \<Rightarrow> real" where
  "np_trunc x = (if 0 \<le> x then of_int \<lfloor>x\<rfloor> else of_int \<lceil>x\<rceil>)"

definition np_asarray :: "matrix \<Rightarrow> dtype \<Rightarrow> ndarray" where
  "np_asarray a d = (d, if is_integer_dtype d then map (map np_trunc) a else a)"

text \<open>The operators \<^verbatim>\<open>+\<close> and \<^verbatim>\<open>*\<close>, \<^verbatim>\<open>np.dot\<close> and \<^verbatim>\<open>.T\<close> of numpy arrays.\<close>

definition nd_add :: "ndarray \<Rightarrow> ndarray \<Rightarrow> error + ndarray" where
  "nd_add a b =
     bind_err (arr_add (nd_data a) (nd_data b))
       (\<lambda>m. Inr (promote_types (nd_dtype a) (nd_dtype b), m))"

definition nd_mul :: "ndarray \<Rightarrow> ndarray \<Rightarrow> error + ndarray" where
  "nd_mul a b =
     bind_err (arr_mul (nd_data a) (nd_data b))
       (\<lambda>m. Inr (promote_types (nd_dtype a) (nd_dtype b), m))"

definition nd_dot :: "ndarray \<Rightarrow> ndarray \<Rightarrow> error + ndarray" where
  "nd_dot a b =
     bind_err (np_dot (nd_data a) (nd_data b))
       (\<lambda>m. Inr (promote_types (nd_dtype a) (nd_dtype b), m))"

definition np_T :: "matrix \<Rightarrow> matrix" where
  "np_T a = transpose a"

definition nd_T :: "ndarray \<Rightarrow> ndarray" where
  "nd_T a = (nd_dtype a, np_T (nd_data a))"

text \<open>
  The in-place division \<^verbatim>\<open>prod /= float(K)\<close>.  The quotient is a floating-point array and
  is written back into \<open>prod\<close>: numpy refuses to cast it to an integer type
  (\<open>TypeError\<close>), and keeps the type of a floating-point \<open>prod\<close>.
\<close>

definition nd_idiv :: "ndarray \<Rightarrow> real \<Rightarrow> error + ndarray" where
  "nd_idiv a c =
     (if is_integer_dtype (nd_dtype a) then Inl TypeError
      else Inr (nd_dtype a, arr_div_scalar (nd_data a) c))"

text \<open>
  \<^verbatim>\<open>np.cumsum(A, axis=0)\<close> of an array; the sums of an \<open>int32\<close> array are accumulated in
  the platform integer, \<open>int64\<close>.
\<close>

definition nd_cumsum0 :: "ndarray \<Rightarrow> ndarray" where
  "nd_cumsum0 a = (if nd_dtype a = int32 then int64 else nd_dtype a, np_cumsum0 (nd_data a))"

text \<open>
  The environment of the two files: Python's string hash, numpy's global random
  generator (what \<^verbatim>\<open>randn(*shape)\<close> and a following \<^verbatim>\<open>choice\<close> return once the
  generator has been seeded with a given seed),
  \<^verbatim>\<open>bayesflow.dists.gaussian_log_density(x, mean, variance=var)\<close>, the same function called
  with three positional arguments (\<open>gaussian_log_density_pos\<close>, the call of
  \<^verbatim>\<open>GMMClustering._logp\<close>), and \<^verbatim>\<open>util.logsumexp(a, b)\<close>.
\<close>

record env =
  str_hash :: "string \<Rightarrow> int"
  randn :: "int \<Rightarrow> shape \<Rightarrow> matrix"
  choice :: "int \<Rightarrow> shape \<Rightarrow> nat \<Rightarrow> nat \<Rightarrow> matrix \<Rightarrow> error + nat list"
  gaussian_log_density :: "matrix \<Rightarrow> matrix \<Rightarrow> matrix \<Rightarrow> error + matrix"
  gaussian_log_density_pos :: "matrix \<Rightarrow> matrix \<Rightarrow> matrix \<Rightarrow> error + matrix"
  logsumexp :: "matrix \<Rightarrow> matrix \<Rightarrow> error + matrix"

section \<open>Posteriors (Q distributions)\<close>

text \<open>
  The posterior classes live in \<^verbatim>\<open>bayesflow.models.q_distributions\<close>; the modelled code
  reads these attributes of a posterior object.  \<open>q_entropy\<close> is what \<^verbatim>\<open>entropy()\<close>
  returns, \<open>q_observed\<close> says whether the object is an \<^verbatim>\<open>ObservedQDistribution\<close>.
  An object is represented by its fields.
\<close>

record qdist =
  q_output_shape :: shape
  q_mean :: matrix
  q_variance :: matrix
  q_sample :: matrix
  q_probs :: matrix
  q_entropy :: real
  q_observed :: bool

text \<open>
  Modelled from the spec: the class \<^verbatim>\<open>ObservedQDistribution\<close> is not in the two files.
  The spec gives \<^verbatim>\<open>ObservedQDistribution(value)\<close> the mean \<open>value\<close>, the variance 0 and
  the entropy 0; it is attached to the node holding \<open>value\<close>, so its shape is the
  value's.  The variance is the array of zeros of that shape (the matrix products of
  \<^verbatim>\<open>_expected_logp\<close> multiply it with arrays of the parents' shapes).
\<close>

definition ObservedQDistribution :: "matrix \<Rightarrow> qdist" where
  "ObservedQDistribution v =
     \<lparr>q_output_shape = np_shape v, q_mean = v, q_variance = map (map (\<lambda>x. 0)) v,
      q_sample = v, q_probs = v, q_entropy = 0, q_observed = True\<rparr>"

section \<open>Nodes and the object store\<close>

text \<open>The classes of the two files.\<close>

datatype cls =
    FlatDistribution
  | NoisyGaussianMatrixProduct
  | NoisyCumulativeSum
  | NoisyLatentFeatures
  | GMMClustering
  | MultiplicativeGaussianNoise

text \<open>
  Node objects live in a store and are named by their reference, the position in the
  store; a node's \<open>input_nodes\<close> and \<open>ancestors\<close> hold references, so that a parent
  shared by two children is one object with one sample cache and one posterior slot.
  The fields are the attributes \<^verbatim>\<open>ConditionalDistribution.__init__\<close> sets
  (\<open>sampled_value\<close>, \<open>sampled_value_seed\<close> and \<open>q_dist\<close> are \<^verbatim>\<open>_sampled_value\<close>,
  \<^verbatim>\<open>_sampled_value_seed\<close> and \<^verbatim>\<open>_q_distribution\<close>; \<open>cls\<close> is the class of the
  object), followed by the attributes only some classes set: \<^verbatim>\<open>value\<close> (\<open>flat_value\<close>, FlatDistribution;
  \<open>new_object\<close> puts an empty array there),
  \<^verbatim>\<open>K\<close> (\<open>node_K\<close>; matrix product, latent features), \<^verbatim>\<open>rescale\<close> (matrix product)
  and \<^verbatim>\<open>n_clusters\<close> (GMMClustering).  Python's \<^verbatim>\<open>None\<close> in an optional attribute
  is \<open>None\<close>.
\<close>

type_synonym ref = nat

record node =
  cls :: cls
  name :: string
  minibatch_scale_factor :: "real option"
  input_nodes :: "(string \<times> ref) list"
  output_shape :: shape
  dtype :: dtype
  ancestors :: "ref set"
  sampled_value :: "ndarray option"
  sampled_value_seed :: "int option"
  q_dist :: "qdist option"
  flat_value :: ndarray
  node_K :: nat
  node_rescale :: bool
  node_n_clusters :: nat

type_synonym heap = "node list"

text \<open>An object before \<^verbatim>\<open>__init__\<close> has set anything.\<close>

definition new_object :: "cls \<Rightarrow> node" where
  "new_object c =
     \<lparr>cls = c, name = [], minibatch_scale_factor = None, input_nodes = [],
      output_shape = [], dtype = float32, ancestors = {}, sampled_value = None,
      sampled_value_seed = None, q_dist = None, flat_value = (float32, []), node_K = 0,
      node_rescale = False, node_n_clusters = 0\<rparr>"

section \<open>Attaching posteriors (ConditionalDistribution)\<close>

text \<open>
  A method that mutates takes the store and returns the store it leaves behind together
  with its result or the exception it raised.

  \<^verbatim>\<open>attach_q(self, q_distribution)\<close>: raises when a posterior is attached already, then
  asserts that the shapes agree, then stores the posterior.
\<close>

definition attach_q :: "ref \<Rightarrow> qdist \<Rightarrow> heap \<Rightarrow> (error + unit) \<times> heap" where
  "attach_q self q h =
     (if q_dist (h ! self) \<noteq> None then
        (Inl (Exception ''trying to attach Q distribution, but another distribution is already attached!''), h)
      else if output_shape (h ! self) \<noteq> q_output_shape q then (Inl AssertionError, h)
      else (Inr (), h[self := (h ! self)\<lparr>q_dist := Some q\<rparr>]))"

text \<open>\<^verbatim>\<open>default_q(self)\<close> of the base class; no class of the two files overrides it.\<close>

definition default_q :: "ref \<Rightarrow> heap \<Rightarrow> (error + qdist) \<times> heap" where
  "default_q self h = (Inl (Exception ''default Q distribution not implemented!''), h)"

text \<open>
  \<^verbatim>\<open>q_distribution(self)\<close>.  The call \<^verbatim>\<open>self.default_q()\<close> is dispatched on the class of
  the node; \<open>dq\<close> is the method it reaches.  The result is the attribute
  \<^verbatim>\<open>self._q_distribution\<close>.
\<close>

definition q_distribution ::
  "(ref \<Rightarrow> heap \<Rightarrow> (error + qdist) \<times> heap) \<Rightarrow> ref \<Rightarrow> heap \<Rightarrow> (error + qdist option) \<times> heap" where
  "q_distribution dq self h =
     (if q_dist (h ! self) = None then
        (case dq self h of
           (Inl e, h1) \<Rightarrow> (Inl e, h1)
         | (Inr q, h1) \<Rightarrow>
             (case attach_q self q h1 of
                (Inl e, h2) \<Rightarrow> (Inl e, h2)
              | (Inr u, h2) \<Rightarrow> (Inr (q_dist (h2 ! self)), h2)))
      else (Inr (q_dist (h ! self)), h))"

text \<open>\<^verbatim>\<open>observe(self, observed_val)\<close>.\<close>

definition observe :: "ref \<Rightarrow> matrix \<Rightarrow> heap \<Rightarrow> (error + qdist) \<times> heap" where
  "observe self observed_val h =
     (let qdist = ObservedQDistribution observed_val in
      case attach_q self qdist h of
        (Inl e, h1) \<Rightarrow> (Inl e, h1)
      | (Inr u, h1) \<Rightarrow> (Inr qdist, h1))"

section \<open>Construction\<close>

text \<open>
  A constructor argument for an input is a node, \<^verbatim>\<open>None\<close>, or a raw array; a raw value
  carries its \<^verbatim>\<open>dtype\<close> attribute when it has one (a numpy array has, a Python list or
  number has not).  The remaining keyword arguments of \<^verbatim>\<open>__init__\<close> are a record.
\<close>

datatype arg = Node ref | PyNone | Raw "dtype option" matrix

record kwargs =
  kw_output_shape :: "shape option"
  kw_dtype :: "dtype option"
  kw_minibatch_scale_factor :: "real option"
  kw_name :: "string option"

definition class_name :: "cls \<Rightarrow> string" where
  "class_name c = (case c of
       FlatDistribution \<Rightarrow> ''FlatDistribution''
     | NoisyGaussianMatrixProduct \<Rightarrow> ''NoisyGaussianMatrixProduct''
     | NoisyCumulativeSum \<Rightarrow> ''NoisyCumulativeSum''
     | NoisyLatentFeatures \<Rightarrow> ''NoisyLatentFeatures''
     | GMMClustering \<Rightarrow> ''GMMClustering''
     | MultiplicativeGaussianNoise \<Rightarrow> ''MultiplicativeGaussianNoise'')"

text \<open>\<^verbatim>\<open>inputs(self)\<close> of each class.\<close>

definition inputs :: "cls \<Rightarrow> string list" where
  "inputs c = (case c of
       FlatDistribution \<Rightarrow> []
     | NoisyGaussianMatrixProduct \<Rightarrow> [''A'', ''B'', ''std'']
     | NoisyCumulativeSum \<Rightarrow> [''A'', ''std'']
     | NoisyLatentFeatures \<Rightarrow> [''B'', ''G'', ''std'']
     | GMMClustering \<Rightarrow> [''weights'', ''centers'', ''std'']
     | MultiplicativeGaussianNoise \<Rightarrow> [''A'', ''std''])"

text \<open>
  A call \<^verbatim>\<open>f(**d)\<close> of a method with the parameters \<open>params\<close>: the dictionary must
  give exactly the parameters, else \<open>TypeError\<close>; the result lists the arguments in
  parameter order.
\<close>

definition kwcall :: "string list \<Rightarrow> (string \<times> 'a) list \<Rightarrow> error + 'a list" where
  "kwcall params d =
     (if set (map fst d) = set params then Inr (map (\<lambda>p. the (map_of d p)) params)
      else Inl TypeError)"

text \<open>
  \<^verbatim>\<open>self._compute_shape(**input_shapes)\<close>, dispatched on the class.  FlatDistribution and
  the base class define no \<^verbatim>\<open>_compute_shape\<close>.
\<close>

definition compute_shape :: "cls \<Rightarrow> (string \<times> shape) list \<Rightarrow> error + shape" where
  "compute_shape c d = (case c of
       FlatDistribution \<Rightarrow> Inl AttributeError
     | NoisyGaussianMatrixProduct \<Rightarrow>
         bind_err (kwcall [''A_shape'', ''B_shape'', ''std_shape''] d)
           (\<lambda>xs. NGMP_compute_shape (xs ! 0) (xs ! 1) (xs ! 2))
     | NoisyCumulativeSum \<Rightarrow>
         bind_err (kwcall [''A_shape'', ''std_shape''] d)
           (\<lambda>xs. NCS_compute_shape (xs ! 0) (xs ! 1))
     | NoisyLatentFeatures \<Rightarrow>
         bind_err (kwcall [''B_shape'', ''G_shape'', ''std_shape''] d)
           (\<lambda>xs. NLF_compute_shape (xs ! 0) (xs ! 1) (xs ! 2))
     | GMMClustering \<Rightarrow>
         bind_err (kwcall [''weights_shape'', ''centers_shape'', ''std_shape''] d)
           (\<lambda>xs. GMM_compute_shape (xs ! 0) (xs ! 1) (xs ! 2))
     | MultiplicativeGaussianNoise \<Rightarrow>
         bind_err (kwcall [''A_shape'', ''std_shape''] d)
           (\<lambda>xs. MGN_compute_shape (xs ! 0) (xs ! 1)))"

text \<open>
  \<^verbatim>\<open>self._compute_dtype(**input_dtypes)\<close>.  FlatDistribution returns the \<^verbatim>\<open>dtype\<close> it
  set on itself before calling the base constructor; the others assert that the dtypes
  they compare agree.
\<close>

definition assert_eq :: "dtype \<Rightarrow> dtype \<Rightarrow> dtype \<Rightarrow> error + dtype" where
  "assert_eq a b res = (if a = b then Inr res else Inl AssertionError)"

definition compute_dtype :: "node \<Rightarrow> (string \<times> dtype) list \<Rightarrow> error + dtype" where
  "compute_dtype self d = (case cls self of
       FlatDistribution \<Rightarrow> bind_err (kwcall [] d) (\<lambda>xs. Inr (dtype self))
     | NoisyGaussianMatrixProduct \<Rightarrow>
         bind_err (kwcall [''A_dtype'', ''B_dtype'', ''std_dtype''] d)
           (\<lambda>xs. bind_err (assert_eq (xs ! 0) (xs ! 1) (xs ! 0))
              (\<lambda>t. assert_eq (xs ! 0) (xs ! 2) (xs ! 0)))
     | NoisyCumulativeSum \<Rightarrow>
         bind_err (kwcall [''A_dtype'', ''std_dtype''] d)
           (\<lambda>xs. assert_eq (xs ! 0) (xs ! 1) (xs ! 0))
     | NoisyLatentFeatures \<Rightarrow>
         bind_err (kwcall [''B_dtype'', ''G_dtype'', ''std_dtype''] d)
           (\<lambda>xs. assert_eq (xs ! 1) (xs ! 2) (xs ! 1))
     | GMMClustering \<Rightarrow>
         bind_err (kwcall [''weights_dtype'', ''centers_dtype'', ''std_dtype''] d)
           (\<lambda>xs. assert_eq (xs ! 1) (xs ! 2) (xs ! 1))
     | MultiplicativeGaussianNoise \<Rightarrow>
         bind_err (kwcall [''A_dtype'', ''std_dtype''] d)
           (\<lambda>xs. assert_eq (xs ! 0) (xs ! 1) (xs ! 0)))"

text \<open>
  The loop of \<^verbatim>\<open>ConditionalDistribution.__init__\<close> over \<^verbatim>\<open>self.inputs()\<close>:
  \<^verbatim>\<open>kwargs[input_name]\<close> raises \<open>KeyError\<close> when the keyword is missing; a node is
  stored, \<^verbatim>\<open>None\<close> is skipped, and any other value is wrapped by \<open>wrap\<close> into a new
  constant node named \<^verbatim>\<open>self.name + "_" + input_name + "_fixed"\<close>.
\<close>

fun wire_inputs ::
  "(matrix \<Rightarrow> dtype option \<Rightarrow> string \<Rightarrow> heap \<Rightarrow> (error + ref) \<times> heap) \<Rightarrow> string \<Rightarrow>
   (string \<times> arg) list \<Rightarrow> string list \<Rightarrow> heap \<Rightarrow> (error + (string \<times> ref) list) \<times> heap" where
  "wire_inputs wrap nm kws [] h = (Inr [], h)"
| "wire_inputs wrap nm kws (input_name # rest) h =
     (case map_of kws input_name of
        None \<Rightarrow> (Inl KeyError, h)
      | Some (Node p) \<Rightarrow>
          (case wire_inputs wrap nm kws rest h of
             (Inl e, h1) \<Rightarrow> (Inl e, h1)
           | (Inr ns, h1) \<Rightarrow> (Inr ((input_name, p) # ns), h1))
      | Some PyNone \<Rightarrow> wire_inputs wrap nm kws rest h
      | Some (Raw vdt v) \<Rightarrow>
          (case wrap v vdt (nm @ ''_'' @ input_name @ ''_fixed'') h of
             (Inl e, h1) \<Rightarrow> (Inl e, h1)
           | (Inr p, h1) \<Rightarrow>
               (case wire_inputs wrap nm kws rest h1 of
                  (Inl e, h2) \<Rightarrow> (Inl e, h2)
                | (Inr ns, h2) \<Rightarrow> (Inr ((input_name, p) # ns), h2))))"

text \<open>
  \<^verbatim>\<open>ConditionalDistribution.__init__\<close>.  \<open>self0\<close> is the object as the subclass
  constructor hands it over, \<open>uuid\<close> the hexadecimal digits of \<^verbatim>\<open>uuid.uuid4()\<close>, \<open>kws\<close>
  the keyword arguments for the inputs.  The object gets its reference when it enters
  the store, after the constants it wraps; the result is that reference.
\<close>

definition ConditionalDistribution_init ::
  "(matrix \<Rightarrow> dtype option \<Rightarrow> string \<Rightarrow> heap \<Rightarrow> (error + ref) \<times> heap) \<Rightarrow> node \<Rightarrow> string \<Rightarrow>
   kwargs \<Rightarrow> (string \<times> arg) list \<Rightarrow> heap \<Rightarrow> (error + ref) \<times> heap" where
  "ConditionalDistribution_init wrap self0 uuid kw kws h =
     (let nm = (case kw_name kw of
                  None \<Rightarrow> class_name (cls self0) @ ''_'' @ take 6 uuid
                | Some n \<Rightarrow> n)
      in case wire_inputs wrap nm kws (inputs (cls self0)) h of
           (Inl e, h1) \<Rightarrow> (Inl e, h1)
         | (Inr ins, h1) \<Rightarrow>
             (case (case kw_output_shape kw of
                      Some s \<Rightarrow> Inr s
                    | None \<Rightarrow> compute_shape (cls self0)
                        (map (\<lambda>(n, p). (n @ ''_shape'', output_shape (h1 ! p))) ins)) of
                Inl e \<Rightarrow> (Inl e, h1)
              | Inr osh \<Rightarrow>
                  (case (case kw_dtype kw of
                           Some d \<Rightarrow> Inr d
                         | None \<Rightarrow> compute_dtype self0
                             (map (\<lambda>(n, p). (n @ ''_dtype'', dtype (h1 ! p))) ins)) of
                     Inl e \<Rightarrow> (Inl e, h1)
                   | Inr dt \<Rightarrow>
                       (let self = length h1 in
                        (Inr self,
                         h1 @ [self0\<lparr>name := nm,
                                 minibatch_scale_factor := kw_minibatch_scale_factor kw,
                                 input_nodes := ins,
                                 output_shape := osh,
                                 dtype := dt,
                                 ancestors := insert self (\<Union>p \<in> snd ` set ins. ancestors (h1 ! p)),
                                 sampled_value := None,
                                 sampled_value_seed := None,
                                 q_dist := None\<rparr>])))))"

text \<open>
  \<^verbatim>\<open>FlatDistribution.__init__(self, value, fixed=True, **kwargs)\<close>.  It passes
  \<^verbatim>\<open>output_shape\<close> itself, so a caller's \<^verbatim>\<open>output_shape\<close> keyword is a duplicate
  (\<open>TypeError\<close>).  The class has no inputs, so its base constructor wraps nothing.
  \<open>dt0\<close> is \<^verbatim>\<open>value.dtype\<close>, or \<^verbatim>\<open>np.float32\<close> for a value without the attribute;
  \<^verbatim>\<open>self.value\<close> is \<^verbatim>\<open>np.asarray(value, dtype=self.dtype)\<close> and the shape passed on is
  \<^verbatim>\<open>self.value.shape\<close>.
\<close>

definition no_wrap :: "matrix \<Rightarrow> dtype option \<Rightarrow> string \<Rightarrow> heap \<Rightarrow> (error + ref) \<times> heap" where
  "no_wrap v vdt nm h = (Inl TypeError, h)"

definition FlatDistribution_init ::
  "matrix \<Rightarrow> dtype option \<Rightarrow> bool \<Rightarrow> string \<Rightarrow> kwargs \<Rightarrow> heap \<Rightarrow> (error + ref) \<times> heap" where
  "FlatDistribution_init v vdt fixed uuid kw h =
     (let dt0 = (case vdt of Some d \<Rightarrow> d | None \<Rightarrow> float32);
          self0 = (new_object FlatDistribution)\<lparr>dtype := dt0, flat_value := np_asarray v dt0\<rparr>
      in if kw_output_shape kw \<noteq> None then (Inl TypeError, h)
         else
           (case ConditionalDistribution_init no_wrap self0 uuid
                   (kw\<lparr>kw_output_shape := Some (np_shape (nd_data (flat_value self0)))\<rparr>) [] h of
              (Inl e, h1) \<Rightarrow> (Inl e, h1)
            | (Inr self, h1) \<Rightarrow>
                if fixed then
                  (case attach_q self (ObservedQDistribution (nd_data (flat_value (h1 ! self)))) h1 of
                     (Inl e, h2) \<Rightarrow> (Inl e, h2)
                   | (Inr u, h2) \<Rightarrow> (Inr self, h2))
                else (Inr self, h1)))"

text \<open>
  The constant node the base constructor builds for a raw value:
  \<^verbatim>\<open>FlatDistribution(kwargs[input_name], fixed=True, name=...)\<close>.
\<close>

definition wrap_constant :: "matrix \<Rightarrow> dtype option \<Rightarrow> string \<Rightarrow> heap \<Rightarrow> (error + ref) \<times> heap" where
  "wrap_constant v vdt nm h =
     FlatDistribution_init v vdt True []
       \<lparr>kw_output_shape = None, kw_dtype = None, kw_minibatch_scale_factor = None,
        kw_name = Some nm\<rparr> h"

text \<open>
  The subclass constructors read \<^verbatim>\<open>A.output_shape[1]\<close> (and the like) from their own
  argument: a node has the attribute, a raw array and \<^verbatim>\<open>None\<close> have not.
\<close>

definition arg_output_shape :: "arg \<Rightarrow> heap \<Rightarrow> error + shape" where
  "arg_output_shape a h = (case a of
       Node p \<Rightarrow> Inr (output_shape (h ! p))
     | PyNone \<Rightarrow> Inl AttributeError
     | Raw vdt v \<Rightarrow> Inl AttributeError)"

definition tuple_index :: "shape \<Rightarrow> nat \<Rightarrow> error + nat" where
  "tuple_index s i = (if i < length s then Inr (s ! i) else Inl IndexError)"

definition NoisyGaussianMatrixProduct_init ::
  "arg \<Rightarrow> arg \<Rightarrow> arg \<Rightarrow> bool \<Rightarrow> string \<Rightarrow> kwargs \<Rightarrow> heap \<Rightarrow> (error + ref) \<times> heap" where
  "NoisyGaussianMatrixProduct_init A B std rescale uuid kw h =
     (case ConditionalDistribution_init wrap_constant (new_object NoisyGaussianMatrixProduct)
             uuid kw [(''A'', A), (''B'', B), (''std'', std)] h of
        (Inl e, h1) \<Rightarrow> (Inl e, h1)
      | (Inr self, h1) \<Rightarrow>
          (case bind_err (arg_output_shape A h1) (\<lambda>s. tuple_index s 1) of
             Inl e \<Rightarrow> (Inl e, h1)
           | Inr k \<Rightarrow>
               (Inr self, h1[self := (h1 ! self)\<lparr>node_K := k, node_rescale := rescale\<rparr>])))"

definition NoisyCumulativeSum_init ::
  "arg \<Rightarrow> arg \<Rightarrow> string \<Rightarrow> kwargs \<Rightarrow> heap \<Rightarrow> (error + ref) \<times> heap" where
  "NoisyCumulativeSum_init A std uuid kw h =
     ConditionalDistribution_init wrap_constant (new_object NoisyCumulativeSum)
       uuid kw [(''A'', A), (''std'', std)] h"

definition NoisyLatentFeatures_init ::
  "arg \<Rightarrow> arg \<Rightarrow> arg \<Rightarrow> string \<Rightarrow> kwargs \<Rightarrow> heap \<Rightarrow> (error + ref) \<times> heap" where
  "NoisyLatentFeatures_init B G std uuid kw h =
     (case ConditionalDistribution_init wrap_constant (new_object NoisyLatentFeatures)
             uuid kw [(''B'', B), (''G'', G), (''std'', std)] h of
        (Inl e, h1) \<Rightarrow> (Inl e, h1)
      | (Inr self, h1) \<Rightarrow>
          (case bind_err (arg_output_shape B h1) (\<lambda>s. tuple_index s 1) of
             Inl e \<Rightarrow> (Inl e, h1)
           | Inr k \<Rightarrow> (Inr self, h1[self := (h1 ! self)\<lparr>node_K := k\<rparr>])))"

definition GMMClustering_init ::
  "arg \<Rightarrow> arg \<Rightarrow> arg \<Rightarrow> string \<Rightarrow> kwargs \<Rightarrow> heap \<Rightarrow> (error + ref) \<times> heap" where
  "GMMClustering_init weights centers std uuid kw h =
     (case ConditionalDistribution_init wrap_constant (new_object GMMClustering)
             uuid kw [(''weights'', weights), (''centers'', centers), (''std'', std)] h of
        (Inl e, h1) \<Rightarrow> (Inl e, h1)
      | (Inr self, h1) \<Rightarrow>
          (case bind_err (arg_output_shape centers h1) (\<lambda>s. tuple_index s 0) of
             Inl e \<Rightarrow> (Inl e, h1)
           | Inr k \<Rightarrow> (Inr self, h1[self := (h1 ! self)\<lparr>node_n_clusters := k\<rparr>])))"

definition MultiplicativeGaussianNoise_init ::
  "arg \<Rightarrow> arg \<Rightarrow> string \<Rightarrow> kwargs \<Rightarrow> heap \<Rightarrow> (error + ref) \<times> heap" where
  "MultiplicativeGaussianNoise_init A std uuid kw h =
     ConditionalDistribution_init wrap_constant (new_object MultiplicativeGaussianNoise)
       uuid kw [(''A'', A), (''std'', std)] h"

section \<open>Sampling\<close>

text \<open>
  The \<^verbatim>\<open>_sample\<close> methods.  \<open>local_seed\<close> is the seed \<^verbatim>\<open>sample\<close> gave to
  \<^verbatim>\<open>np.random.seed\<close> just before the call, so \<open>randn env local_seed shape\<close> is what
  \<^verbatim>\<open>np.random.randn(*shape)\<close> then returns.  Each method starts with
  \<^verbatim>\<open>noise = np.asarray(np.random.randn(*self.output_shape), dtype=self.dtype) * std\<close>.

  \<^verbatim>\<open>NoisyGaussianMatrixProduct._sample(self, A, B, std)\<close>:
  \<^verbatim>\<open>prod = np.dot(A, B.T)\<close>, then \<^verbatim>\<open>if self.rescale: prod /= float(self.K)\<close>, then
  \<^verbatim>\<open>return prod + noise\<close>.
\<close>

definition NGMP_sample ::
  "env \<Rightarrow> node \<Rightarrow> int \<Rightarrow> ndarray \<Rightarrow> ndarray \<Rightarrow> ndarray \<Rightarrow> error + ndarray" where
  "NGMP_sample env self local_seed A B std =
     bind_err (nd_mul (np_asarray (randn env local_seed (output_shape self)) (dtype self)) std)
       (\<lambda>noise.
     bind_err (nd_dot A (nd_T B)) (\<lambda>prod.
     bind_err (if node_rescale self then nd_idiv prod (real (node_K self)) else Inr prod)
       (\<lambda>prod. nd_add prod noise)))"

text \<open>\<^verbatim>\<open>NoisyCumulativeSum._sample(self, A, std)\<close>: \<^verbatim>\<open>return np.cumsum(A, axis=0) + noise\<close>.\<close>

definition NCS_sample :: "env \<Rightarrow> node \<Rightarrow> int \<Rightarrow> ndarray \<Rightarrow> ndarray \<Rightarrow> error + ndarray" where
  "NCS_sample env self local_seed A std =
     bind_err (nd_mul (np_asarray (randn env local_seed (output_shape self)) (dtype self)) std)
       (\<lambda>noise. nd_add (nd_cumsum0 A) noise)"

text \<open>
  \<^verbatim>\<open>NoisyLatentFeatures._sample(self, B, G, std)\<close>:
  \<^verbatim>\<open>return np.asarray(np.dot(B, G), dtype=self.dtype) + noise\<close>.
\<close>

definition NLF_sample ::
  "env \<Rightarrow> node \<Rightarrow> int \<Rightarrow> ndarray \<Rightarrow> ndarray \<Rightarrow> ndarray \<Rightarrow> error + ndarray" where
  "NLF_sample env self local_seed B G std =
     bind_err (nd_mul (np_asarray (randn env local_seed (output_shape self)) (dtype self)) std)
       (\<lambda>noise.
     bind_err (nd_dot B G) (\<lambda>prod. nd_add (np_asarray (nd_data prod) (dtype self)) noise))"

text \<open>\<^verbatim>\<open>centers[choices]\<close>: the rows of \<open>centers\<close> picked by the indices.\<close>

definition take_rows :: "matrix \<Rightarrow> nat list \<Rightarrow> error + matrix" where
  "take_rows a idx =
     (if \<forall>i \<in> set idx. i < length a then Inr (map (\<lambda>i. a ! i) idx) else Inl IndexError)"

text \<open>
  \<^verbatim>\<open>GMMClustering._sample(self, weights, centers, std)\<close>: \<^verbatim>\<open>N, D = self.output_shape\<close>,
  \<^verbatim>\<open>choices = np.random.choice(np.arange(K), size=(N,), p=weights)\<close> with
  \<^verbatim>\<open>K = self.n_clusters\<close>, and \<^verbatim>\<open>return centers[choices] + noise\<close>.
\<close>

definition GMM_sample ::
  "env \<Rightarrow> node \<Rightarrow> int \<Rightarrow> ndarray \<Rightarrow> ndarray \<Rightarrow> ndarray \<Rightarrow> error + ndarray" where
  "GMM_sample env self local_seed weights centers std =
     bind_err (nd_mul (np_asarray (randn env local_seed (output_shape self)) (dtype self)) std)
       (\<lambda>noise.
       case output_shape self of
         [N, D] \<Rightarrow>
           bind_err (choice env local_seed (output_shape self) (node_n_clusters self) N
                       (nd_data weights))
             (\<lambda>choices. bind_err (take_rows (nd_data centers) choices)
                (\<lambda>picked. nd_add (nd_dtype centers, picked) noise))
       | _ \<Rightarrow> Inl ValueError)"

text \<open>\<^verbatim>\<open>MultiplicativeGaussianNoise._sample(self, A, std)\<close>: \<^verbatim>\<open>return A * noise\<close>.\<close>

definition MGN_sample :: "env \<Rightarrow> node \<Rightarrow> int \<Rightarrow> ndarray \<Rightarrow> ndarray \<Rightarrow> error + ndarray" where
  "MGN_sample env self local_seed A std =
     bind_err (nd_mul (np_asarray (randn env local_seed (output_shape self)) (dtype self)) std)
       (\<lambda>noise. nd_mul A noise)"

text \<open>
  A parent's \<^verbatim>\<open>sample\<close> returns its cached attribute, which is \<^verbatim>\<open>None\<close> when an earlier
  \<^verbatim>\<open>_sample\<close> of that parent raised; array arithmetic on \<^verbatim>\<open>None\<close> raises.
\<close>

definition not_none :: "'a option list \<Rightarrow> error + 'a list" where
  "not_none xs = (if None \<in> set xs then Inl TypeError else Inr (map the xs))"

text \<open>
  \<^verbatim>\<open>self._sample(**input_samples)\<close>, dispatched on the class.
  \<^verbatim>\<open>FlatDistribution._sample(self, seed=0)\<close> returns the stored value.
\<close>

definition sample_impl ::
  "env \<Rightarrow> node \<Rightarrow> int \<Rightarrow> (string \<times> ndarray option) list \<Rightarrow> error + ndarray" where
  "sample_impl env self local_seed d = (case cls self of
       FlatDistribution \<Rightarrow>
         (if set (map fst d) \<subseteq> {''seed''} then Inr (flat_value self) else Inl TypeError)
     | NoisyGaussianMatrixProduct \<Rightarrow>
         bind_err (kwcall [''A'', ''B'', ''std''] d) (\<lambda>xs. bind_err (not_none xs)
           (\<lambda>vs. NGMP_sample env self local_seed (vs ! 0) (vs ! 1) (vs ! 2)))
     | NoisyCumulativeSum \<Rightarrow>
         bind_err (kwcall [''A'', ''std''] d) (\<lambda>xs. bind_err (not_none xs)
           (\<lambda>vs. NCS_sample env self local_seed (vs ! 0) (vs ! 1)))
     | NoisyLatentFeatures \<Rightarrow>
         bind_err (kwcall [''B'', ''G'', ''std''] d) (\<lambda>xs. bind_err (not_none xs)
           (\<lambda>vs. NLF_sample env self local_seed (vs ! 0) (vs ! 1) (vs ! 2)))
     | GMMClustering \<Rightarrow>
         bind_err (kwcall [''weights'', ''centers'', ''std''] d) (\<lambda>xs. bind_err (not_none xs)
           (\<lambda>vs. GMM_sample env self local_seed (vs ! 0) (vs ! 1) (vs ! 2)))
     | MultiplicativeGaussianNoise \<Rightarrow>
         bind_err (kwcall [''A'', ''std''] d) (\<lambda>xs. bind_err (not_none xs)
           (\<lambda>vs. MGN_sample env self local_seed (vs ! 0) (vs ! 1))))"

text \<open>
  \<^verbatim>\<open>sample(self, seed)\<close> and its loop over \<^verbatim>\<open>self.input_nodes.items()\<close>.  The seed
  marker is written before \<^verbatim>\<open>_sample\<close> is called, the value after it has returned.

  A parent is constructed before its child, so in every store the constructors build a
  parent's reference is smaller than the child's.  The loop checks this where it
  descends, which makes the recursion well-founded; on a store where it fails (Python
  would recurse without end there) the result is \<open>RecursionError\<close>.
\<close>

function sample :: "env \<Rightarrow> ref \<Rightarrow> int \<Rightarrow> heap \<Rightarrow> (error + ndarray option) \<times> heap"
  and sample_inputs ::
    "env \<Rightarrow> ref \<Rightarrow> (string \<times> ref) list \<Rightarrow> int \<Rightarrow> heap \<Rightarrow>
     (error + (string \<times> ndarray option) list) \<times> heap" where
  "sample env self seed h =
     (if Some seed \<noteq> sampled_value_seed (h ! self) then
        (case sample_inputs env self (input_nodes (h ! self)) seed h of
           (Inl e, h1) \<Rightarrow> (Inl e, h1)
         | (Inr input_samples, h1) \<Rightarrow>
             (let salt = str_hash env (name (h1 ! self));
                  local_seed = (seed + salt) mod 2 ^ 32;
                  h2 = h1[self := (h1 ! self)\<lparr>sampled_value_seed := Some seed\<rparr>]
              in case sample_impl env (h2 ! self) local_seed input_samples of
                   Inl e \<Rightarrow> (Inl e, h2)
                 | Inr v \<Rightarrow>
                     (let h3 = h2[self := (h2 ! self)\<lparr>sampled_value := Some v\<rparr>]
                      in (Inr (sampled_value (h3 ! self)), h3))))
      else (Inr (sampled_value (h ! self)), h))"
| "sample_inputs env self [] seed h = (Inr [], h)"
| "sample_inputs env self ((nm, p) # rest) seed h =
     (if p < self then
        (case sample env p seed h of
           (Inl e, h1) \<Rightarrow> (Inl e, h1)
         | (Inr v, h1) \<Rightarrow>
             (case sample_inputs env self rest seed h1 of
                (Inl e, h2) \<Rightarrow> (Inl e, h2)
              | (Inr vs, h2) \<Rightarrow> (Inr ((nm, v) # vs), h2)))
      else (Inl RecursionError, h))"
  by pat_completeness auto
termination
  by (relation "measures
        [case_sum (\<lambda>(env, self, seed, h). self) (\<lambda>(env, self, ins, seed, h). self),
         case_sum (\<lambda>(env, self, seed, h). 1) (\<lambda>(env, self, ins, seed, h). 0),
         case_sum (\<lambda>(env, self, seed, h). 0) (\<lambda>(env, self, ins, seed, h). length ins)]")
     auto

declare sample.simps [simp del]

section \<open>The ELBO term\<close>

text \<open>
  The dictionary comprehension of \<^verbatim>\<open>elbo_term\<close>:
  \<^verbatim>\<open>{"q_"+name: node.q_distribution() for (name,node) in self.input_nodes.items()}\<close>.
\<close>

fun input_qs ::
  "(ref \<Rightarrow> heap \<Rightarrow> (error + qdist) \<times> heap) \<Rightarrow> (string \<times> ref) list \<Rightarrow> heap \<Rightarrow>
   (error + (string \<times> qdist option) list) \<times> heap" where
  "input_qs dq [] h = (Inr [], h)"
| "input_qs dq ((nm, p) # rest) h =
     (case q_distribution dq p h of
        (Inl e, h1) \<Rightarrow> (Inl e, h1)
      | (Inr q, h1) \<Rightarrow>
          (case input_qs dq rest h1 of
             (Inl e, h2) \<Rightarrow> (Inl e, h2)
           | (Inr qs, h2) \<Rightarrow> (Inr ((''q_'' @ nm, q) # qs), h2)))"

text \<open>
  \<^verbatim>\<open>ConditionalDistribution.elbo_term(self)\<close>.  The call
  \<^verbatim>\<open>self._expected_logp(q_result = q, **input_qs)\<close> is dispatched on the class of the
  node; \<open>elp\<close> is the method it reaches, given the node, \<open>q\<close> and the dictionary.
  \<^verbatim>\<open>q.entropy()\<close> on \<^verbatim>\<open>None\<close> would raise \<open>AttributeError\<close>.
\<close>

definition elbo_term ::
  "(node \<Rightarrow> qdist option \<Rightarrow> (string \<times> qdist option) list \<Rightarrow> error + real) \<Rightarrow>
   (ref \<Rightarrow> heap \<Rightarrow> (error + qdist) \<times> heap) \<Rightarrow> ref \<Rightarrow> heap \<Rightarrow> (error + real \<times> real) \<times> heap" where
  "elbo_term elp dq self h =
     (case input_qs dq (input_nodes (h ! self)) h of
        (Inl e, h1) \<Rightarrow> (Inl e, h1)
      | (Inr iqs, h1) \<Rightarrow>
          (case q_distribution dq self h1 of
             (Inl e, h2) \<Rightarrow> (Inl e, h2)
           | (Inr q, h2) \<Rightarrow>
               (case elp (h2 ! self) q iqs of
                  Inl e \<Rightarrow> (Inl e, h2)
                | Inr expected_lp \<Rightarrow>
                    (case q of
                       None \<Rightarrow> (Inl AttributeError, h2)
                     | Some qq \<Rightarrow>
                         (let entropy = q_entropy qq in
                          case minibatch_scale_factor (h2 ! self) of
                            None \<Rightarrow> (Inr (expected_lp, entropy), h2)
                          | Some s \<Rightarrow> (Inr (expected_lp * s, entropy * s), h2))))))"

text \<open>
  The symmetry corrections of the overriding \<^verbatim>\<open>elbo_term\<close> methods:
  \<^verbatim>\<open>np.sum(np.log(np.arange(1, K+1)))\<close> and \<^verbatim>\<open>K * np.log(2)\<close>.
\<close>

definition permutation_correction :: "nat \<Rightarrow> real" where
  "permutation_correction k = sum_list (map (\<lambda>i. ln (real i)) [1..<k + 1])"

definition signflip_correction :: "nat \<Rightarrow> real" where
  "signflip_correction k = real k * ln 2"

text \<open>
  \<^verbatim>\<open>NoisyGaussianMatrixProduct.elbo_term(self, symmetry_correction_hack=True)\<close>, and the
  same method of NoisyLatentFeatures and GMMClustering: the base method first, then the
  correction is added to the expected log-probability it returned.
\<close>

definition NGMP_elbo_term ::
  "(node \<Rightarrow> qdist option \<Rightarrow> (string \<times> qdist option) list \<Rightarrow> error + real) \<Rightarrow>
   (ref \<Rightarrow> heap \<Rightarrow> (error + qdist) \<times> heap) \<Rightarrow> bool \<Rightarrow> ref \<Rightarrow> heap \<Rightarrow>
   (error + real \<times> real) \<times> heap" where
  "NGMP_elbo_term elp dq symmetry_correction_hack self h =
     (case elbo_term elp dq self h of
        (Inl e, h1) \<Rightarrow> (Inl e, h1)
      | (Inr (expected_logp, entropy), h1) \<Rightarrow>
          if symmetry_correction_hack then
            (Inr (expected_logp + permutation_correction (node_K (h1 ! self))
                    + signflip_correction (node_K (h1 ! self)), entropy), h1)
          else (Inr (expected_logp, entropy), h1))"

definition NLF_elbo_term ::
  "(node \<Rightarrow> qdist option \<Rightarrow> (string \<times> qdist option) list \<Rightarrow> error + real) \<Rightarrow>
   (ref \<Rightarrow> heap \<Rightarrow> (error + qdist) \<times> heap) \<Rightarrow> bool \<Rightarrow> ref \<Rightarrow> heap \<Rightarrow>
   (error + real \<times> real) \<times> heap" where
  "NLF_elbo_term elp dq symmetry_correction_hack self h =
     (case elbo_term elp dq self h of
        (Inl e, h1) \<Rightarrow> (Inl e, h1)
      | (Inr (expected_logp, entropy), h1) \<Rightarrow>
          if symmetry_correction_hack then
            (Inr (expected_logp + permutation_correction (node_K (h1 ! self)), entropy), h1)
          else (Inr (expected_logp, entropy), h1))"

definition GMM_elbo_term ::
  "(node \<Rightarrow> qdist option \<Rightarrow> (string \<times> qdist option) list \<Rightarrow> error + real) \<Rightarrow>
   (ref \<Rightarrow> heap \<Rightarrow> (error + qdist) \<times> heap) \<Rightarrow> bool \<Rightarrow> ref \<Rightarrow> heap \<Rightarrow>
   (error + real \<times> real) \<times> heap" where
  "GMM_elbo_term elp dq symmetry_correction_hack self h =
     (case elbo_term elp dq self h of
        (Inl e, h1) \<Rightarrow> (Inl e, h1)
      | (Inr (expected_logp, entropy), h1) \<Rightarrow>
          if symmetry_correction_hack then
            (Inr (expected_logp + permutation_correction (node_n_clusters (h1 ! self)),
                  entropy), h1)
          else (Inr (expected_logp, entropy), h1))"

section \<open>The expected log-probability of the matrix product\<close>

text \<open>
  \<^verbatim>\<open>NoisyGaussianMatrixProduct._expected_logp(self, q_result, q_A, q_B, q_std)\<close>, in the
  order of the source: the variance \<open>var\<close>, the mean prediction \<open>expected_result\<close>, the
  Gaussian term, the correction, and their difference.
\<close>

definition NGMP_var :: "qdist \<Rightarrow> qdist \<Rightarrow> error + matrix" where
  "NGMP_var q_result q_std = arr_add (q_variance q_result) (tf_square (q_sample q_std))"

definition NGMP_expected_result :: "node \<Rightarrow> qdist \<Rightarrow> qdist \<Rightarrow> error + matrix" where
  "NGMP_expected_result self q_A q_B =
     bind_err (tf_matmul (q_mean q_A) (tf_transpose (q_mean q_B))) (\<lambda>expected_result.
       Inr (if node_rescale self then arr_div_scalar expected_result (real (node_K self))
            else expected_result))"

definition NGMP_gaussian_lp :: "env \<Rightarrow> node \<Rightarrow> qdist \<Rightarrow> qdist \<Rightarrow> qdist \<Rightarrow> matrix \<Rightarrow> error + real" where
  "NGMP_gaussian_lp env self q_result q_A q_B var =
     bind_err (NGMP_expected_result self q_A q_B) (\<lambda>expected_result.
     bind_err (gaussian_log_density env (q_mean q_result) expected_result var) (\<lambda>g.
       Inr (tf_reduce_sum g)))"

definition NGMP_correction :: "node \<Rightarrow> qdist \<Rightarrow> qdist \<Rightarrow> matrix \<Rightarrow> error + real" where
  "NGMP_correction self q_A q_B var =
     bind_err (tf_matmul (q_variance q_A) (tf_transpose (q_variance q_B))) (\<lambda>vAvB.
     bind_err (tf_matmul (q_variance q_A) (tf_transpose (tf_square (q_mean q_B)))) (\<lambda>vAmB.
     bind_err (tf_matmul (tf_square (q_mean q_A)) (tf_transpose (q_variance q_B))) (\<lambda>mAvB.
     bind_err (arr_add vAvB vAmB) (\<lambda>s1.
     bind_err (arr_add s1 mAvB) (\<lambda>s2.
     bind_err (arr_div s2 var) (\<lambda>d.
       (let correction = tf_reduce_sum d in
        Inr (if node_rescale self
             then correction / real (node_K self * node_K self)
             else correction))))))))"

definition NGMP_expected_logp ::
  "env \<Rightarrow> node \<Rightarrow> qdist \<Rightarrow> qdist \<Rightarrow> qdist \<Rightarrow> qdist \<Rightarrow> error + real" where
  "NGMP_expected_logp env self q_result q_A q_B q_std =
     bind_err (NGMP_var q_result q_std) (\<lambda>var.
     bind_err (NGMP_gaussian_lp env self q_result q_A q_B var) (\<lambda>gaussian_lp.
     bind_err (NGMP_correction self q_A q_B var) (\<lambda>correction.
       Inr (gaussian_lp - 0.5 * correction))))"

text \<open>The method as \<^verbatim>\<open>elbo_term\<close> calls it, with keyword arguments.\<close>

definition NGMP_expected_logp_kw ::
  "env \<Rightarrow> node \<Rightarrow> qdist option \<Rightarrow> (string \<times> qdist option) list \<Rightarrow> error + real" where
  "NGMP_expected_logp_kw env self q d =
     bind_err (kwcall [''q_A'', ''q_B'', ''q_std''] d) (\<lambda>xs.
     bind_err (not_none (q # xs)) (\<lambda>qs.
       NGMP_expected_logp env self (qs ! 0) (qs ! 1) (qs ! 2) (qs ! 3)))"

section \<open>The Monte Carlo expected log-probability and the mixture\<close>

text \<open>
  \<^verbatim>\<open>ConditionalDistribution._expected_logp(self, **kwargs)\<close>, the default that
  GMMClustering inherits: every key must start with \<^verbatim>\<open>q_\<close>, the sample of each posterior
  is stored under the rest of the key (\<^verbatim>\<open>qdist.sample\<close> on \<^verbatim>\<open>None\<close> raises
  \<open>AttributeError\<close>), and \<^verbatim>\<open>self._logp(**samples)\<close> is called; \<open>logp\<close> is the method that
  call reaches, given the node and the dictionary.  The items are taken with
  \<^verbatim>\<open>q_result\<close> first (the order of a dictionary's items only decides which of two
  failures is met first).
\<close>

fun mc_samples :: "(string \<times> qdist option) list \<Rightarrow> error + (string \<times> matrix) list" where
  "mc_samples [] = Inr []"
| "mc_samples ((q_key, qd) # rest) =
     (if take 2 q_key \<noteq> ''q_'' then Inl AssertionError
      else case qd of
             None \<Rightarrow> Inl AttributeError
           | Some q \<Rightarrow>
               bind_err (mc_samples rest) (\<lambda>samples. Inr ((drop 2 q_key, q_sample q) # samples)))"

definition default_expected_logp ::
  "(node \<Rightarrow> (string \<times> matrix) list \<Rightarrow> error + real) \<Rightarrow>
   node \<Rightarrow> qdist option \<Rightarrow> (string \<times> qdist option) list \<Rightarrow> error + real" where
  "default_expected_logp logp self q d =
     bind_err (mc_samples ((''q_result'', q) # d)) (\<lambda>samples. logp self samples)"

text \<open>
  \<^verbatim>\<open>tf.log\<close>, and \<^verbatim>\<open>tf.reduce_sum(t, 1)\<close>: the sums of the rows, a one-dimensional tensor,
  kept as a single row.
\<close>

definition tf_log :: "matrix \<Rightarrow> matrix" where
  "tf_log a = map (map ln) a"

definition tf_reduce_sum1 :: "matrix \<Rightarrow> matrix" where
  "tf_reduce_sum1 a = [map sum_list a]"

text \<open>
  \<^verbatim>\<open>GMMClustering._logp(self, result, weights, centers, std)\<close>.  The loop runs over
  \<^verbatim>\<open>enumerate(tf.unpack(centers))\<close>, the rows of \<open>centers\<close> with their index \<open>i\<close>; each
  row is a one-dimensional tensor, kept as a single row.  \<^verbatim>\<open>weights[i]\<close> is row \<open>i\<close> of
  \<open>weights\<close>.  \<open>total_logps\<close> is \<^verbatim>\<open>None\<close> before the first cluster; with no cluster at
  all \<^verbatim>\<open>tf.reduce_sum(None)\<close> raises.
\<close>

fun GMM_logp_loop ::
  "env \<Rightarrow> matrix \<Rightarrow> matrix \<Rightarrow> matrix \<Rightarrow> nat \<Rightarrow> real list list \<Rightarrow> matrix option \<Rightarrow>
   error + matrix option" where
  "GMM_logp_loop env result weights std i [] total_logps = Inr total_logps"
| "GMM_logp_loop env result weights std i (center # rest) total_logps =
     bind_err (gaussian_log_density_pos env result [center] std) (\<lambda>g.
     (let cluster_lls = tf_reduce_sum1 g in
      bind_err (if i < length weights then Inr [weights ! i] else Inl IndexError) (\<lambda>w.
      bind_err (arr_add (tf_log w) cluster_lls) (\<lambda>cluster_logps.
      bind_err (case total_logps of
                  None \<Rightarrow> Inr cluster_logps
                | Some t \<Rightarrow> logsumexp env t cluster_logps) (\<lambda>t.
        GMM_logp_loop env result weights std (i + 1) rest (Some t))))))"

definition GMM_logp :: "env \<Rightarrow> matrix \<Rightarrow> matrix \<Rightarrow> matrix \<Rightarrow> matrix \<Rightarrow> error + real" where
  "GMM_logp env result weights centers std =
     bind_err (GMM_logp_loop env result weights std 0 centers None) (\<lambda>total_logps.
       case total_logps of
         None \<Rightarrow> Inl ValueError
       | Some t \<Rightarrow> Inr (tf_reduce_sum t))"

text \<open>The method as the default \<^verbatim>\<open>_expected_logp\<close> calls it, with keyword arguments.\<close>

definition GMM_logp_kw :: "env \<Rightarrow> node \<Rightarrow> (string \<times> matrix) list \<Rightarrow> error + real" where
  "GMM_logp_kw env self samples =
     bind_err (kwcall [''result'', ''weights'', ''centers'', ''std''] samples) (\<lambda>xs.
       GMM_logp env (xs ! 0) (xs ! 1) (xs ! 2) (xs ! 3))"

section \<open>The object graph and the calls of a client\<close>

text \<open>The parents of a node are the values of its \<^verbatim>\<open>input_nodes\<close> dictionary.\<close>

definition parents :: "node \<Rightarrow> ref set" where
  "parents n = snd ` set (input_nodes n)"

text \<open>
  The invariant of the store: every node's parents were constructed before it, and its
  \<^verbatim>\<open>ancestors\<close> attribute is itself together with the ancestors of its parents.
\<close>

definition graph_inv :: "heap \<Rightarrow> bool" where
  "graph_inv h \<longleftrightarrow>
     (\<forall>n < length h. (\<forall>p \<in> parents (h ! n). p < n)
        \<and> ancestors (h ! n) = insert n (\<Union>p \<in> parents (h ! n). ancestors (h ! p)))"

text \<open>The graph a store holds: the wiring and the ancestor set of each node.\<close>

definition graph_of :: "heap \<Rightarrow> ((string \<times> ref) list \<times> ref set) list" where
  "graph_of h = map (\<lambda>n. (input_nodes n, ancestors n)) h"

text \<open>\<open>extends h h'\<close>: \<open>h'\<close> keeps the nodes of \<open>h\<close> as they are and satisfies the invariant.\<close>

definition extends :: "heap \<Rightarrow> heap \<Rightarrow> bool" where
  "extends h h' \<longleftrightarrow> graph_inv h' \<and> length h \<le> length h' \<and> take (length h) h' = h"

text \<open>
  What a client can do with the two modules: construct a node of one of the six classes,
  or call a method of a node it holds.  A node argument refers to an object of the store
  (\<open>arg_ok\<close>, \<open>call_ok\<close>): a Python reference cannot dangle.  \<open>after c h\<close> is the
  store the call \<open>c\<close> leaves, whether it returned or raised; \<open>run\<close> makes a sequence
  of calls.  \<^verbatim>\<open>q_distribution\<close> and \<^verbatim>\<open>elbo_term\<close> reach the \<^verbatim>\<open>default_q\<close> of the
  base class, the only one in the two files.
\<close>

definition arg_ok :: "heap \<Rightarrow> arg \<Rightarrow> bool" where
  "arg_ok h a = (case a of Node p \<Rightarrow> p < length h | PyNone \<Rightarrow> True | Raw vdt v \<Rightarrow> True)"

datatype call =
    New_FlatDistribution matrix "dtype option" bool string kwargs
  | New_NoisyGaussianMatrixProduct arg arg arg bool string kwargs
  | New_NoisyCumulativeSum arg arg string kwargs
  | New_NoisyLatentFeatures arg arg arg string kwargs
  | New_GMMClustering arg arg arg string kwargs
  | New_MultiplicativeGaussianNoise arg arg string kwargs
  | Call_sample env ref int
  | Call_attach_q ref qdist
  | Call_observe ref matrix
  | Call_q_distribution ref
  | Call_elbo_term "node \<Rightarrow> qdist option \<Rightarrow> (string \<times> qdist option) list \<Rightarrow> error + real" ref

fun after :: "call \<Rightarrow> heap \<Rightarrow> heap" where
  "after (New_FlatDistribution v vdt fixed uuid kw) h =
     snd (FlatDistribution_init v vdt fixed uuid kw h)"
| "after (New_NoisyGaussianMatrixProduct A B std rescale uuid kw) h =
     snd (NoisyGaussianMatrixProduct_init A B std rescale uuid kw h)"
| "after (New_NoisyCumulativeSum A std uuid kw) h = snd (NoisyCumulativeSum_init A std uuid kw h)"
| "after (New_NoisyLatentFeatures B G std uuid kw) h =
     snd (NoisyLatentFeatures_init B G std uuid kw h)"
| "after (New_GMMClustering weights centers std uuid kw) h =
     snd (GMMClustering_init weights centers std uuid kw h)"
| "after (New_MultiplicativeGaussianNoise A std uuid kw) h =
     snd (MultiplicativeGaussianNoise_init A std uuid kw h)"
| "after (Call_sample env self seed) h = snd (sample env self seed h)"
| "after (Call_attach_q self q) h = snd (attach_q self q h)"
| "after (Call_observe self v) h = snd (observe self v h)"
| "after (Call_q_distribution self) h = snd (q_distribution default_q self h)"
| "after (Call_elbo_term elp self) h = snd (elbo_term elp default_q self h)"

fun call_ok :: "heap \<Rightarrow> call \<Rightarrow> bool" where
  "call_ok h (New_FlatDistribution v vdt fixed uuid kw) = True"
| "call_ok h (New_NoisyGaussianMatrixProduct A B std rescale uuid kw) =
     (arg_ok h A \<and> arg_ok h B \<and> arg_ok h std)"
| "call_ok h (New_NoisyCumulativeSum A std uuid kw) = (arg_ok h A \<and> arg_ok h std)"
| "call_ok h (New_NoisyLatentFeatures B G std uuid kw) =
     (arg_ok h B \<and> arg_ok h G \<and> arg_ok h std)"
| "call_ok h (New_GMMClustering weights centers std uuid kw) =
     (arg_ok h weights \<and> arg_ok h centers \<and> arg_ok h std)"
| "call_ok h (New_MultiplicativeGaussianNoise A std uuid kw) = (arg_ok h A \<and> arg_ok h std)"
| "call_ok h (Call_sample env self seed) = (self < length h)"
| "call_ok h (Call_attach_q self q) = (self < length h)"
| "call_ok h (Call_observe self v) = (self < length h)"
| "call_ok h (Call_q_distribution self) = (self < length h)"
| "call_ok h (Call_elbo_term elp self) = (self < length h)"

fun run :: "call list \<Rightarrow> heap \<Rightarrow> heap" where
  "run [] h = h"
| "run (c # cs) h = run cs (after c h)"

fun calls_ok :: "heap \<Rightarrow> call list \<Rightarrow> bool" where
  "calls_ok h [] = True"
| "calls_ok h (c # cs) = (call_ok h c \<and> calls_ok (after c h) cs)"

section \<open>Example stores\<close>

text \<open>The keyword arguments of a call that passes none, and a \<^verbatim>\<open>uuid4().hex\<close>.\<close>

definition kw_none :: kwargs where
  "kw_none = \<lparr>kw_output_shape = None, kw_dtype = None, kw_minibatch_scale_factor = None,
              kw_name = None\<rparr>"

definition ex_uuid :: string where
  "ex_uuid = ''3f2a9c0d5e7b41a8''"

text \<open>
  \<^verbatim>\<open>x = FlatDistribution([[1,2,3]], fixed=False)\<close>: one node, no posterior attached.
\<close>

definition ex_free :: heap where
  "ex_free = snd (FlatDistribution_init [[1, 2, 3]] None False ex_uuid kw_none [])"

text \<open>\<^verbatim>\<open>x = FlatDistribution([[1,2,3]])\<close>: one node, fixed to its value.\<close>

definition ex_fixed :: heap where
  "ex_fixed = snd (FlatDistribution_init [[1, 2, 3]] None True ex_uuid kw_none [])"

text \<open>
  Three fixed parameter nodes: \<open>weights\<close> (reference 0, shape \<open>(1,2)\<close>), \<open>centers\<close>
  (reference 1, shape \<open>(2,2)\<close>) and \<open>std\<close> (reference 2, the scalar 0.1).
\<close>

definition ex_params :: heap where
  "ex_params =
     snd (wrap_constant [[1 / 10]] (Some float64) ''std''
       (snd (wrap_constant [[0, 0], [10, 10]] (Some float64) ''centers''
         (snd (wrap_constant [[1 / 2, 1 / 2]] (Some float64) ''weights'' [])))))"

text \<open>
  A fixed \<open>B\<close> of shape \<open>(4,3)\<close> (reference 0) and a fixed scalar \<open>std\<close> (reference 1);
  a raw \<open>5 \<times> 3\<close> array.
\<close>

definition ex_B_std :: heap where
  "ex_B_std =
     snd (wrap_constant [[1 / 10]] (Some float64) ''std''
       (snd (wrap_constant [[1, 0, 0], [0, 1, 0], [0, 0, 1], [1, 1, 1]] (Some float64) ''B'' [])))"

definition ex_A53 :: matrix where
  "ex_A53 = [[1, 2, 3], [4, 5, 6], [7, 8, 9], [1, 0, 1], [0, 1, 0]]"

text \<open>
  A client that builds \<open>B\<close> and \<open>std\<close> and then
  \<^verbatim>\<open>NoisyCumulativeSum(A=<raw 5x3 array>, std=std)\<close>: the store has the four nodes
  \<open>B\<close>, \<open>std\<close>, the wrapper of \<open>A\<close> and the cumulative sum (reference 3).
\<close>

definition ex_calls :: "call list" where
  "ex_calls =
     [New_FlatDistribution [[1, 0, 0], [0, 1, 0], [0, 0, 1], [1, 1, 1]] (Some float64) True []
        (kw_none\<lparr>kw_name := Some ''B''\<rparr>),
      New_FlatDistribution [[1 / 10]] (Some float64) True [] (kw_none\<lparr>kw_name := Some ''std''\<rparr>),
      New_NoisyCumulativeSum (Raw (Some float64) ex_A53) (Node 1) ex_uuid kw_none]"

text \<open>
  An environment for the examples: a string hash, a stand-in for the random generator
  (every draw is a tenth of the seed), the log-density of the normal distribution, given
  its variance and given its standard deviation, and \<open>ln (exp a + exp b)\<close>.
\<close>

definition ex_env :: env where
  "ex_env =
     \<lparr>str_hash = (\<lambda>s. int (length s)),
      randn = (\<lambda>seed shape. case shape of
                  [n, m] \<Rightarrow> replicate n (replicate m (real_of_int seed / 10)) | _ \<Rightarrow> []),
      choice = (\<lambda>seed shape k n weights. Inr (replicate n 0)),
      gaussian_log_density = (\<lambda>x m v.
         bind_err (broadcast2 (\<lambda>a b. (a - b) * (a - b)) x m)
           (\<lambda>d. broadcast2 (\<lambda>d v. - ln (2 * pi * v) / 2 - d / (2 * v)) d v)),
      gaussian_log_density_pos = (\<lambda>x m s.
         bind_err (broadcast2 (\<lambda>a b. (a - b) * (a - b)) x m)
           (\<lambda>d. broadcast2 (\<lambda>d s. - ln (2 * pi * (s * s)) / 2 - d / (2 * (s * s))) d s)),
      logsumexp = broadcast2 (\<lambda>a b. ln (exp a + exp b))\<rparr>"

text \<open>
  A matrix product with a posterior attached: \<open>A\<close> and \<open>B\<close> of shape \<open>(1,4)\<close>, the
  scalar \<open>std\<close>, then \<^verbatim>\<open>NoisyGaussianMatrixProduct(A, B, std, minibatch_scale_factor=s)\<close>
  (reference 3, \<open>K = 4\<close>) and \<^verbatim>\<open>attach_q\<close> of a posterior of shape \<open>(1,1)\<close> with
  entropy 2.  \<open>ex_elp\<close> is the expected log-probability of that node.
\<close>

definition ex_q11 :: qdist where
  "ex_q11 = \<lparr>q_output_shape = [1, 1], q_mean = [[1]], q_variance = [[1]],
             q_sample = [[1]], q_probs = [[1]], q_entropy = 2, q_observed = False\<rparr>"

definition ex_ngmp_calls :: "real option \<Rightarrow> call list" where
  "ex_ngmp_calls s =
     [New_FlatDistribution [[1, 2, 3, 4]] (Some float64) True [] (kw_none\<lparr>kw_name := Some ''A''\<rparr>),
      New_FlatDistribution [[1, 0, 1, 0]] (Some float64) True [] (kw_none\<lparr>kw_name := Some ''B''\<rparr>),
      New_FlatDistribution [[1 / 10]] (Some float64) True [] (kw_none\<lparr>kw_name := Some ''std''\<rparr>),
      New_NoisyGaussianMatrixProduct (Node 0) (Node 1) (Node 2) True ex_uuid
        (kw_none\<lparr>kw_minibatch_scale_factor := s\<rparr>),
      Call_attach_q 3 ex_q11]"

definition ex_ngmp :: "real option \<Rightarrow> heap" where
  "ex_ngmp s = run (ex_ngmp_calls s) []"

definition ex_elp :: real where
  "ex_elp = - ln (2 * pi * (101 / 100)) / 2"

text \<open>Two posteriors, of shape \<open>(1,3)\<close> and \<open>(2,2)\<close>.\<close>

definition ex_q13 :: qdist where
  "ex_q13 = \<lparr>q_output_shape = [1, 3], q_mean = [[0, 0, 0]], q_variance = [[1, 1, 1]],
             q_sample = [[0, 0, 0]], q_probs = [[0, 0, 0]], q_entropy = 2, q_observed = False\<rparr>"

definition ex_q22 :: qdist where
  "ex_q22 = \<lparr>q_output_shape = [2, 2], q_mean = [[0, 0], [0, 0]], q_variance = [[1, 1], [1, 1]],
             q_sample = [[0, 0], [0, 0]], q_probs = [[0, 0], [0, 0]], q_entropy = 3,
             q_observed = False\<rparr>"





text \<open>
  A mixture with three cluster centers: the weights (one row for each cluster), the
  centers of shape \<open>(3,2)\<close>, the scalar \<open>std\<close>, then
  \<^verbatim>\<open>GMMClustering(weights, centers, std, output_shape=(2,2))\<close> (reference 3) and
  \<^verbatim>\<open>attach_q\<close> of a posterior of shape \<open>(2,2)\<close> with entropy 3.
\<close>

definition ex_gmm :: heap where
  "ex_gmm = run
     [New_FlatDistribution [[1 / 3], [1 / 3], [1 / 3]] (Some float64) True []
        (kw_none\<lparr>kw_name := Some ''weights''\<rparr>),
      New_FlatDistribution [[0, 0], [10, 10], [20, 20]] (Some float64) True []
        (kw_none\<lparr>kw_name := Some ''centers''\<rparr>),
      New_FlatDistribution [[1 / 10]] (Some float64) True [] (kw_none\<lparr>kw_name := Some ''std''\<rparr>),
      New_GMMClustering (Node 0) (Node 1) (Node 2) ex_uuid
        (kw_none\<lparr>kw_output_shape := Some [2, 2]\<rparr>),
      Call_attach_q 3 ex_q22] []"

text \<open>
  The expected log-probability of that node: both sampled points are at the first
  center, and a cluster at distance \<open>d\<close> contributes \<open>ln (1/3) - ln (\<pi>/50) - 100 d\<^sup>2\<close>.
\<close>

definition ex_gmm_elp :: real where
  "ex_gmm_elp =
     2 * ln (exp (ln (exp (ln (1 / 3) - ln (pi / 50))
                      + exp (ln (1 / 3) + (- ln (pi / 50) - 10000))))
             + exp (ln (1 / 3) + (- ln (pi / 50) - 40000)))"

section \<open>Facts about construction\<close>

lemma cls_new_object [simp]: "cls (new_object c) = c"
  by (simp add: new_object_def)

text \<open>The conversion keeps the shape, and leaves a floating-point array as it is.\<close>

lemma np_shape_np_asarray [simp]: "np_shape (nd_data (np_asarray v d)) = np_shape v"
  by (cases v) (simp_all add: np_asarray_def np_shape_def)

lemma np_asarray_float [simp]:
  "np_asarray v float32 = (float32, v)" "np_asarray v float64 = (float64, v)"
  by (simp_all add: np_asarray_def is_integer_dtype_def)

lemma np_trunc_values:
  "np_trunc (7 / 2) = 3" "np_trunc (- 7 / 2) = - 3" "np_trunc 4 = 4" "np_trunc (- 3 / 2) = - 1"
  by (simp_all add: np_trunc_def)

lemma np_asarray_int:
  "np_asarray [[3 / 2, - 3 / 2]] int32 = (int32, [[1, - 1]])"
  "np_asarray [[3 / 2, - 3 / 2]] int64 = (int64, [[1, - 1]])"
  by (simp_all add: np_asarray_def is_integer_dtype_def np_trunc_def)

lemma promote_types_values:
  "promote_types int32 int64 = int64" "promote_types int64 int32 = int64"
  "promote_types int32 int32 = int32" "promote_types float32 float32 = float32"
  "promote_types int32 float32 = float64" "promote_types float32 int64 = float64"
  "promote_types float32 float64 = float64" "promote_types int64 float64 = float64"
  by (simp_all add: promote_types_def is_integer_dtype_def)

lemma nd_idiv_values:
  "nd_idiv (int32, [[6]]) 3 = Inl TypeError" "nd_idiv (int64, [[6]]) 3 = Inl TypeError"
  "nd_idiv (float32, [[6]]) 3 = Inr (float32, [[2]])"
  "nd_idiv (float64, [[6]]) 3 = Inr (float64, [[2]])"
  by (simp_all add: nd_idiv_def is_integer_dtype_def arr_div_scalar_def)

lemma nd_cumsum0_values:
  "nd_cumsum0 (int32, [[1, 2], [3, 4], [5, 6]]) = (int64, [[1, 2], [4, 6], [9, 12]])"
  "nd_cumsum0 (float32, [[1, 2], [3, 4]]) = (float32, [[1, 2], [4, 6]])"
  by (simp_all add: nd_cumsum0_def np_cumsum0_def)

text \<open>What the constructor of a constant node returns, on any store.\<close>

lemma FlatDistribution_init_eq:
  assumes "kw_output_shape kw = None"
  shows "FlatDistribution_init v vdt fixed uuid kw h =
     (Inr (length h),
      h @ [\<lparr>cls = FlatDistribution,
             name = (case kw_name kw of
                       None \<Rightarrow> ''FlatDistribution'' @ ''_'' @ take 6 uuid | Some n \<Rightarrow> n),
             minibatch_scale_factor = kw_minibatch_scale_factor kw,
             input_nodes = [],
             output_shape = np_shape v,
             dtype = (case kw_dtype kw of
                        Some d \<Rightarrow> d
                      | None \<Rightarrow> (case vdt of Some d \<Rightarrow> d | None \<Rightarrow> float32)),
             ancestors = {length h},
             sampled_value = None, sampled_value_seed = None,
             q_dist = (if fixed
                       then Some (ObservedQDistribution (nd_data (np_asarray v
                              (case vdt of Some d \<Rightarrow> d | None \<Rightarrow> float32))))
                       else None),
             flat_value = np_asarray v (case vdt of Some d \<Rightarrow> d | None \<Rightarrow> float32),
             node_K = 0, node_rescale = False, node_n_clusters = 0\<rparr>])"
  using assms
  by (simp add: FlatDistribution_init_def ConditionalDistribution_init_def Let_def inputs_def
      class_name_def compute_dtype_def kwcall_def bind_err_def new_object_def attach_q_def
      ObservedQDistribution_def split: option.splits)

lemma wrap_constant_eq:
  "wrap_constant v vdt nm h =
     (Inr (length h),
      h @ [\<lparr>cls = FlatDistribution, name = nm, minibatch_scale_factor = None,
             input_nodes = [], output_shape = np_shape v,
             dtype = (case vdt of Some d \<Rightarrow> d | None \<Rightarrow> float32),
             ancestors = {length h}, sampled_value = None, sampled_value_seed = None,
             q_dist = Some (ObservedQDistribution (nd_data (np_asarray v
                        (case vdt of Some d \<Rightarrow> d | None \<Rightarrow> float32)))),
             flat_value = np_asarray v (case vdt of Some d \<Rightarrow> d | None \<Rightarrow> float32),
             node_K = 0, node_rescale = False, node_n_clusters = 0\<rparr>])"
  by (simp add: wrap_constant_def FlatDistribution_init_eq)

lemma ex_free_eq:
  "ex_free = [\<lparr>cls = FlatDistribution, name = ''FlatDistribution_3f2a9c'',
      minibatch_scale_factor = None, input_nodes = [], output_shape = [1, 3],
      dtype = float32, ancestors = {0}, sampled_value = None, sampled_value_seed = None,
      q_dist = None, flat_value = (float32, [[1, 2, 3]]), node_K = 0, node_rescale = False,
      node_n_clusters = 0\<rparr>]"
  by (simp add: ex_free_def FlatDistribution_init_eq kw_none_def ex_uuid_def np_shape_def)

lemma ex_fixed_eq:
  "ex_fixed = [\<lparr>cls = FlatDistribution, name = ''FlatDistribution_3f2a9c'',
      minibatch_scale_factor = None, input_nodes = [], output_shape = [1, 3],
      dtype = float32, ancestors = {0}, sampled_value = None, sampled_value_seed = None,
      q_dist = Some (ObservedQDistribution [[1, 2, 3]]), flat_value = (float32, [[1, 2, 3]]),
      node_K = 0, node_rescale = False, node_n_clusters = 0\<rparr>]"
  by (simp add: ex_fixed_def FlatDistribution_init_eq kw_none_def ex_uuid_def np_shape_def)

lemma ex_params_eq:
  "ex_params =
    [\<lparr>cls = FlatDistribution, name = ''weights'', minibatch_scale_factor = None,
      input_nodes = [], output_shape = [1, 2], dtype = float64, ancestors = {0},
      sampled_value = None, sampled_value_seed = None,
      q_dist = Some (ObservedQDistribution [[1 / 2, 1 / 2]]), flat_value = (float64, [[1 / 2, 1 / 2]]),
      node_K = 0, node_rescale = False, node_n_clusters = 0\<rparr>,
     \<lparr>cls = FlatDistribution, name = ''centers'', minibatch_scale_factor = None,
      input_nodes = [], output_shape = [2, 2], dtype = float64, ancestors = {1},
      sampled_value = None, sampled_value_seed = None,
      q_dist = Some (ObservedQDistribution [[0, 0], [10, 10]]),
      flat_value = (float64, [[0, 0], [10, 10]]),
      node_K = 0, node_rescale = False, node_n_clusters = 0\<rparr>,
     \<lparr>cls = FlatDistribution, name = ''std'', minibatch_scale_factor = None,
      input_nodes = [], output_shape = [1, 1], dtype = float64, ancestors = {2},
      sampled_value = None, sampled_value_seed = None,
      q_dist = Some (ObservedQDistribution [[1 / 10]]), flat_value = (float64, [[1 / 10]]),
      node_K = 0, node_rescale = False, node_n_clusters = 0\<rparr>]"
  by (simp add: ex_params_def wrap_constant_eq np_shape_def)

lemma ex_B_std_eq:
  "ex_B_std =
    [\<lparr>cls = FlatDistribution, name = ''B'', minibatch_scale_factor = None,
      input_nodes = [], output_shape = [4, 3], dtype = float64, ancestors = {0},
      sampled_value = None, sampled_value_seed = None,
      q_dist = Some (ObservedQDistribution [[1, 0, 0], [0, 1, 0], [0, 0, 1], [1, 1, 1]]),
      flat_value = (float64, [[1, 0, 0], [0, 1, 0], [0, 0, 1], [1, 1, 1]]),
      node_K = 0, node_rescale = False, node_n_clusters = 0\<rparr>,
     \<lparr>cls = FlatDistribution, name = ''std'', minibatch_scale_factor = None,
      input_nodes = [], output_shape = [1, 1], dtype = float64, ancestors = {1},
      sampled_value = None, sampled_value_seed = None,
      q_dist = Some (ObservedQDistribution [[1 / 10]]), flat_value = (float64, [[1 / 10]]),
      node_K = 0, node_rescale = False, node_n_clusters = 0\<rparr>]"
  by (simp add: ex_B_std_def wrap_constant_eq np_shape_def)

lemma compute_shape_GMM: "\<exists>e. compute_shape GMMClustering d = Inl e"
  by (simp add: compute_shape_def bind_err_def GMM_compute_shape_def split: sum.splits)

lemma base_GMM_fails:
  assumes "cls self0 = GMMClustering" and "kw_output_shape kw = None"
  shows "\<exists>e h'. ConditionalDistribution_init wrap self0 uuid kw kws h = (Inl e, h')"
proof -
  define nm where "nm = (case kw_name kw of
                  None \<Rightarrow> class_name (cls self0) @ ''_'' @ take 6 uuid
                | Some n \<Rightarrow> n)"
  obtain res h1 where w: "wire_inputs wrap nm kws (inputs (cls self0)) h = (res, h1)"
    by (cases "wire_inputs wrap nm kws (inputs (cls self0)) h")
  show ?thesis
  proof (cases res)
    case (Inl e)
    then have "ConditionalDistribution_init wrap self0 uuid kw kws h = (Inl e, h1)"
      using w by (simp add: ConditionalDistribution_init_def Let_def nm_def [symmetric])
    then show ?thesis by blast
  next
    case (Inr ins)
    obtain e where "compute_shape (cls self0) (map (\<lambda>(n, p). (n @ ''_shape'', output_shape (h1 ! p))) ins) = Inl e"
      using compute_shape_GMM assms(1) by metis
    then have "ConditionalDistribution_init wrap self0 uuid kw kws h = (Inl e, h1)"
      using w Inr assms(2) by (simp add: ConditionalDistribution_init_def Let_def nm_def [symmetric])
    then show ?thesis by blast
  qed
qed

lemma GMM_init_fails: "kw_output_shape kw = None \<Longrightarrow> \<exists>e h'. GMMClustering_init weights centers std uuid kw h = (Inl e, h')"
  using base_GMM_fails[of "new_object GMMClustering" kw wrap_constant uuid "[(''weights'', weights), (''centers'', centers), (''std'', std)]" h]
  by (auto simp add: GMMClustering_init_def)

lemma GMM_init_explicit:
  assumes "kw_output_shape kw = Some s" 
    and "kw_dtype kw \<noteq> None \<or> dtype (h ! c) = dtype (h ! sd)"
    and "output_shape (h ! c) \<noteq> []" and "c < length h"
  shows "\<exists>h'. GMMClustering_init (Node w) (Node c) (Node sd) uuid kw h = (Inr (length h), h')
      \<and> output_shape (h' ! length h) = s \<and> node_n_clusters (h' ! length h) = hd (output_shape (h ! c))"
  using assms
  apply (cases "output_shape (h ! c)")
  apply (auto simp add: GMMClustering_init_def ConditionalDistribution_init_def inputs_def new_object_def
      compute_dtype_def kwcall_def bind_err_def assert_eq_def arg_output_shape_def tuple_index_def nth_append Let_def
      split: option.splits)
  done

lemma ex_run_eq: "run ex_calls [] = ex_B_std @
      [\<lparr>cls = FlatDistribution, name = ''NoisyCumulativeSum_3f2a9c_A_fixed'',
        minibatch_scale_factor = None, input_nodes = [], output_shape = [5, 3],
        dtype = float64, ancestors = {2}, sampled_value = None, sampled_value_seed = None,
        q_dist = Some (ObservedQDistribution ex_A53), flat_value = (float64, ex_A53),
        node_K = 0, node_rescale = False, node_n_clusters = 0\<rparr>,
       \<lparr>cls = NoisyCumulativeSum, name = ''NoisyCumulativeSum_3f2a9c'',
        minibatch_scale_factor = None, input_nodes = [(''A'', 2), (''std'', 1)],
        output_shape = [5, 3], dtype = float64, ancestors = {3, 2, 1},
        sampled_value = None, sampled_value_seed = None, q_dist = None,
        flat_value = (float32, []), node_K = 0, node_rescale = False, node_n_clusters = 0\<rparr>]"
    by (auto simp add: ex_calls_def NoisyCumulativeSum_init_def ConditionalDistribution_init_def
        Let_def inputs_def wrap_constant_eq FlatDistribution_init_eq ex_B_std_eq kw_none_def
        compute_shape_def compute_dtype_def kwcall_def bind_err_def assert_eq_def
        NCS_compute_shape_def np_shape_def ex_A53_def ex_uuid_def class_name_def new_object_def)


section \<open>Attaching posteriors\<close>

text \<open>
  Claim C5.  \<^verbatim>\<open>attach_q\<close> fails when a posterior is attached already, and fails when the
  new posterior's shape differs from the node's (with \<open>AssertionError\<close> when none is
  attached); both failures leave the store as it was.  When none is attached and the
  shapes agree it succeeds, and afterwards \<^verbatim>\<open>q_distribution()\<close> returns that posterior
  and leaves the store unchanged (so every later call returns it again), whatever method
  \<^verbatim>\<open>default_q\<close> is: it is not called.
\<close>

theorem attach_q_once:
  "(q_dist (h ! self) \<noteq> None \<longrightarrow> (\<exists>msg. attach_q self q h = (Inl (Exception msg), h)))
   \<and> (output_shape (h ! self) \<noteq> q_output_shape q \<longrightarrow> (\<exists>e. attach_q self q h = (Inl e, h)))
   \<and> (q_dist (h ! self) = None \<and> output_shape (h ! self) \<noteq> q_output_shape q \<longrightarrow>
        attach_q self q h = (Inl AssertionError, h))
   \<and> (self < length h \<and> q_dist (h ! self) = None \<and> output_shape (h ! self) = q_output_shape q \<longrightarrow>
        (\<exists>h'. attach_q self q h = (Inr (), h') \<and> q_dist (h' ! self) = Some q
            \<and> (\<forall>dq. q_distribution dq self h' = (Inr (Some q), h'))))"
  by (simp add: attach_q_def q_distribution_def)

theorem attach_q_once_witness:
  "q_dist (ex_fixed ! 0) \<noteq> None
   \<and> (\<exists>msg. attach_q 0 ex_q13 ex_fixed = (Inl (Exception msg), ex_fixed))
   \<and> q_dist (ex_free ! 0) = None \<and> output_shape (ex_free ! 0) \<noteq> q_output_shape ex_q22
   \<and> attach_q 0 ex_q22 ex_free = (Inl AssertionError, ex_free)
   \<and> 0 < length ex_free \<and> output_shape (ex_free ! 0) = q_output_shape ex_q13
   \<and> (\<exists>h'. attach_q 0 ex_q13 ex_free = (Inr (), h') \<and> q_dist (h' ! 0) = Some ex_q13
         \<and> (\<forall>dq. q_distribution dq 0 h' = (Inr (Some ex_q13), h')))"
  using attach_q_once [of ex_fixed 0 ex_q13] attach_q_once [of ex_free 0 ex_q22]
    attach_q_once [of ex_free 0 ex_q13]
  by (simp add: ex_fixed_eq ex_free_eq ex_q13_def ex_q22_def)

text \<open>
  Claim C10.  Whenever \<^verbatim>\<open>attach_q\<close> raises, the store it leaves is the store it was
  called on: the posterior slot of the node (and everything else) is as before, so a
  later \<^verbatim>\<open>q_distribution()\<close> behaves as if the call had not happened.
\<close>

theorem attach_q_failure_atomic:
  "attach_q self q h = (Inl e, h') \<Longrightarrow>
     h' = h \<and> q_dist (h' ! self) = q_dist (h ! self)
     \<and> q_distribution dq self h' = q_distribution dq self h
     \<and> (q_dist (h ! self) \<noteq> None \<or> output_shape (h ! self) \<noteq> q_output_shape q)"
  by (auto simp add: attach_q_def split: if_splits)

theorem attach_q_failure_atomic_witness:
  "attach_q 0 ex_q13 ex_fixed
     = (Inl (Exception ''trying to attach Q distribution, but another distribution is already attached!''), ex_fixed)
   \<and> q_dist (ex_fixed ! 0) = Some (ObservedQDistribution [[1, 2, 3]])
   \<and> attach_q 0 ex_q22 ex_free = (Inl AssertionError, ex_free)
   \<and> q_dist (ex_free ! 0) = None"
proof -
  have a: "attach_q 0 ex_q13 ex_fixed
     = (Inl (Exception ''trying to attach Q distribution, but another distribution is already attached!''), ex_fixed)"
    by (simp add: attach_q_def ex_fixed_eq)
  have b: "attach_q 0 ex_q22 ex_free = (Inl AssertionError, ex_free)"
    by (simp add: attach_q_def ex_free_eq ex_q22_def)
  show ?thesis
    using attach_q_failure_atomic [OF a] attach_q_failure_atomic [OF b] a b
    by (simp add: ex_fixed_eq ex_free_eq)
qed

section \<open>Construction: shapes that cannot be inferred, raw arguments\<close>

text \<open>
  Claim C9.  \<^verbatim>\<open>GMMClustering._compute_shape\<close> raises for all shapes (and so does the
  keyword call of it, for every dictionary); a GMMClustering constructed without
  \<^verbatim>\<open>output_shape\<close> fails, whatever its arguments; with \<^verbatim>\<open>output_shape\<close> given, the
  constructor does not ask \<^verbatim>\<open>_compute_shape\<close>: on parameter nodes whose dtypes agree it
  succeeds and the node has the given shape.
\<close>

theorem GMM_shape_not_inferred:
  "GMM_compute_shape weights_shape centers_shape std_shape
     = Inl (Exception ''cannot infer shape for GMMClustering, must specify number of cluster draws'')
   \<and> (\<exists>e. compute_shape GMMClustering d = Inl e)
   \<and> (kw_output_shape kw = None \<longrightarrow>
        (\<exists>e h'. GMMClustering_init weights centers std uuid kw h = (Inl e, h')))
   \<and> (kw_output_shape kw = Some s \<and> c < length h \<and> output_shape (h ! c) \<noteq> []
        \<and> (kw_dtype kw \<noteq> None \<or> dtype (h ! c) = dtype (h ! sd)) \<longrightarrow>
        (\<exists>h'. GMMClustering_init (Node w) (Node c) (Node sd) uuid kw h = (Inr (length h), h')
           \<and> output_shape (h' ! length h) = s
           \<and> node_n_clusters (h' ! length h) = hd (output_shape (h ! c))))"
  using compute_shape_GMM [of d] GMM_init_fails [of kw weights centers std uuid h]
    GMM_init_explicit [of kw s h c sd w uuid]
  by (simp add: GMM_compute_shape_def)

theorem GMM_shape_not_inferred_witness:
  "kw_output_shape kw_none = None
   \<and> (\<exists>e h'. GMMClustering_init (Node 0) (Node 1) (Node 2) ex_uuid kw_none ex_params = (Inl e, h'))
   \<and> kw_output_shape (kw_none\<lparr>kw_output_shape := Some [5, 2]\<rparr>) = Some [5, 2]
   \<and> 1 < length ex_params \<and> output_shape (ex_params ! 1) \<noteq> []
   \<and> dtype (ex_params ! 1) = dtype (ex_params ! 2)
   \<and> (\<exists>h'. GMMClustering_init (Node 0) (Node 1) (Node 2) ex_uuid
              (kw_none\<lparr>kw_output_shape := Some [5, 2]\<rparr>) ex_params = (Inr 3, h')
         \<and> output_shape (h' ! 3) = [5, 2] \<and> node_n_clusters (h' ! 3) = 2)"
proof -
  have len: "length ex_params = 3"
    by (simp add: ex_params_eq)
  have f: "output_shape (ex_params ! Suc 0) = [2, 2]" "dtype (ex_params ! Suc 0) = float64"
    "dtype (ex_params ! 2) = float64"
    by (simp_all add: ex_params_eq)
  show ?thesis
    using GMM_shape_not_inferred [of "[]" "[]" "[]" "[]" kw_none "Node 0" "Node 1" "Node 2" ex_uuid ex_params "[]" 0 0 0]
      GMM_shape_not_inferred [of "[]" "[]" "[]" "[]" "kw_none\<lparr>kw_output_shape := Some [5, 2]\<rparr>" "Node 0" "Node 1" "Node 2" ex_uuid ex_params "[5, 2]" 1 2 0]
    by (simp add: len f kw_none_def)
qed

text \<open>
  Claim C2 (a raw array is accepted for every declared input) fails on the code for the
  inputs whose node the subclass constructor reads back from its own argument: the base
  constructor wraps the raw value and stores the node, and then \<^verbatim>\<open>A.output_shape\<close> is
  read from the raw array, which has no such attribute.  For every store and every other
  argument the three constructors raise; in the example the base constructor has built
  the wrapper (reference 2) and the product node (reference 3, shape \<open>(5,4)\<close>) when
  \<open>AttributeError\<close> is raised.  NoisyCumulativeSum, which reads nothing back, accepts
  the same raw array.
\<close>

theorem raw_input_construction:
  "(\<exists>e h'. NoisyGaussianMatrixProduct_init (Raw vdt v) B std rescale uuid kw h = (Inl e, h'))
   \<and> (\<exists>e h'. NoisyLatentFeatures_init (Raw vdt v) G std uuid kw h = (Inl e, h'))
   \<and> (\<exists>e h'. GMMClustering_init weights (Raw vdt v) std uuid kw h = (Inl e, h'))
   \<and> (\<exists>h'. NoisyGaussianMatrixProduct_init (Raw (Some float64) ex_A53) (Node 0) (Node 1) True
              ex_uuid kw_none ex_B_std = (Inl AttributeError, h')
         \<and> length h' = 4 \<and> cls (h' ! 2) = FlatDistribution \<and> flat_value (h' ! 2) = (float64, ex_A53)
         \<and> input_nodes (h' ! 3) = [(''A'', 2), (''B'', 0), (''std'', 1)]
         \<and> output_shape (h' ! 3) = [5, 4])
   \<and> (\<exists>h'. NoisyCumulativeSum_init (Raw (Some float64) ex_A53) (Node 1) ex_uuid kw_none ex_B_std
              = (Inr 3, h')
         \<and> input_nodes (h' ! 3) = [(''A'', 2), (''std'', 1)]
         \<and> cls (h' ! 2) = FlatDistribution \<and> flat_value (h' ! 2) = (float64, ex_A53)
         \<and> q_dist (h' ! 2) = Some (ObservedQDistribution ex_A53)
         \<and> output_shape (h' ! 3) = [5, 3])"
proof -
  have a: "\<exists>e h'. NoisyGaussianMatrixProduct_init (Raw vdt v) B std rescale uuid kw h = (Inl e, h')"
    by (auto simp add: NoisyGaussianMatrixProduct_init_def arg_output_shape_def bind_err_def
        split: prod.splits sum.splits)
  have b: "\<exists>e h'. NoisyLatentFeatures_init (Raw vdt v) G std uuid kw h = (Inl e, h')"
    by (auto simp add: NoisyLatentFeatures_init_def arg_output_shape_def bind_err_def
        split: prod.splits sum.splits)
  have c: "\<exists>e h'. GMMClustering_init weights (Raw vdt v) std uuid kw h = (Inl e, h')"
    by (auto simp add: GMMClustering_init_def arg_output_shape_def bind_err_def
        split: prod.splits sum.splits)
  have d: "\<exists>h'. NoisyGaussianMatrixProduct_init (Raw (Some float64) ex_A53) (Node 0) (Node 1) True
              ex_uuid kw_none ex_B_std = (Inl AttributeError, h')
         \<and> length h' = 4 \<and> cls (h' ! 2) = FlatDistribution \<and> flat_value (h' ! 2) = (float64, ex_A53)
         \<and> input_nodes (h' ! 3) = [(''A'', 2), (''B'', 0), (''std'', 1)]
         \<and> output_shape (h' ! 3) = [5, 4]"
    by (simp add: NoisyGaussianMatrixProduct_init_def ConditionalDistribution_init_def Let_def
        inputs_def wrap_constant_eq ex_B_std_eq kw_none_def compute_shape_def compute_dtype_def
        kwcall_def bind_err_def assert_eq_def arg_output_shape_def np_shape_def ex_A53_def)
  have e: "\<exists>h'. NoisyCumulativeSum_init (Raw (Some float64) ex_A53) (Node 1) ex_uuid kw_none ex_B_std
              = (Inr 3, h')
         \<and> input_nodes (h' ! 3) = [(''A'', 2), (''std'', 1)]
         \<and> cls (h' ! 2) = FlatDistribution \<and> flat_value (h' ! 2) = (float64, ex_A53)
         \<and> q_dist (h' ! 2) = Some (ObservedQDistribution ex_A53)
         \<and> output_shape (h' ! 3) = [5, 3]"
    by (simp add: NoisyCumulativeSum_init_def ConditionalDistribution_init_def Let_def
        inputs_def wrap_constant_eq ex_B_std_eq kw_none_def compute_shape_def compute_dtype_def
        kwcall_def bind_err_def assert_eq_def NCS_compute_shape_def np_shape_def ex_A53_def)
  show ?thesis
    using a b c d e by blast
qed

section \<open>The ancestor sets\<close>

text \<open>The invariant depends on the graph only, and survives a new node wired to old ones.\<close>

lemma length_graph_of [simp]: "length (graph_of h) = length h"
  by (simp add: graph_of_def)

lemma graph_of_nth: "n < length h \<Longrightarrow> graph_of h ! n = (input_nodes (h ! n), ancestors (h ! n))"
  by (simp add: graph_of_def)

lemma graph_of_update:
  "input_nodes x = input_nodes (h ! r) \<Longrightarrow> ancestors x = ancestors (h ! r) \<Longrightarrow>
   graph_of (h[r := x]) = graph_of h"
  by (cases "r < length h")
     (auto simp add: graph_of_def nth_list_update list_update_beyond intro!: nth_equalityI)

lemma graph_inv_graph_of:
  assumes "graph_of h' = graph_of h" and "graph_inv h"
  shows "graph_inv h'"
proof -
  have len: "length h' = length h"
    using assms(1) by (metis length_graph_of)
  have nth: "\<And>n. n < length h \<Longrightarrow> input_nodes (h' ! n) = input_nodes (h ! n) \<and> ancestors (h' ! n) = ancestors (h ! n)"
    using assms(1) len by (metis graph_of_nth prod.inject)
  show ?thesis
    unfolding graph_inv_def
  proof (intro allI impI)
    fix n assume n: "n < length h'"
    then have nh: "n < length h" using len by simp
    have par: "parents (h' ! n) = parents (h ! n)"
      using nth [OF nh] by (simp add: parents_def)
    have lt: "\<forall>p \<in> parents (h ! n). p < n"
      and eq: "ancestors (h ! n) = insert n (\<Union>p \<in> parents (h ! n). ancestors (h ! p))"
      using assms(2) nh by (simp_all add: graph_inv_def)
    have "\<And>p. p \<in> parents (h ! n) \<Longrightarrow> ancestors (h' ! p) = ancestors (h ! p)"
      using lt nh nth by (meson less_trans)
    then have "(\<Union>p \<in> parents (h ! n). ancestors (h' ! p)) = (\<Union>p \<in> parents (h ! n). ancestors (h ! p))"
      by simp
    then show "(\<forall>p \<in> parents (h' ! n). p < n)
        \<and> ancestors (h' ! n) = insert n (\<Union>p \<in> parents (h' ! n). ancestors (h' ! p))"
      using par lt eq nth [OF nh] by simp
  qed
qed

lemma graph_inv_append:
  assumes "graph_inv h" and "\<forall>p \<in> parents x. p < length h"
    and "ancestors x = insert (length h) (\<Union>p \<in> parents x. ancestors (h ! p))"
  shows "graph_inv (h @ [x])"
  unfolding graph_inv_def
proof (intro allI impI)
  fix n assume n: "n < length (h @ [x])"
  show "(\<forall>p \<in> parents ((h @ [x]) ! n). p < n)
        \<and> ancestors ((h @ [x]) ! n) = insert n (\<Union>p \<in> parents ((h @ [x]) ! n). ancestors ((h @ [x]) ! p))"
  proof (cases "n < length h")
    case True
    have lt: "\<forall>p \<in> parents (h ! n). p < n"
      and eq: "ancestors (h ! n) = insert n (\<Union>p \<in> parents (h ! n). ancestors (h ! p))"
      using assms(1) True by (simp_all add: graph_inv_def)
    have "\<And>p. p \<in> parents (h ! n) \<Longrightarrow> (h @ [x]) ! p = h ! p"
      using lt True by (metis less_trans nth_append)
    then have "(\<Union>p \<in> parents (h ! n). ancestors ((h @ [x]) ! p)) = (\<Union>p \<in> parents (h ! n). ancestors (h ! p))"
      by simp
    then show ?thesis using True lt eq by (simp add: nth_append)
  next
    case False
    then have nl: "n = length h" using n by simp
    have "\<And>p. p \<in> parents x \<Longrightarrow> (h @ [x]) ! p = h ! p"
      using assms(2) by (simp add: nth_append)
    then have "(\<Union>p \<in> parents x. ancestors ((h @ [x]) ! p)) = (\<Union>p \<in> parents x. ancestors (h ! p))"
      by simp
    then show ?thesis using nl assms(2,3) by simp
  qed
qed

lemma sample_graph_of:
  "graph_of (snd (sample env self seed h)) = graph_of h"
  "graph_of (snd (sample_inputs env self ins seed h)) = graph_of h"
proof (induction env self seed h and env self ins seed h rule: sample_sample_inputs.induct)
  case (1 env self seed h)
  show ?case
  proof (cases "Some seed \<noteq> sampled_value_seed (h ! self)")
    case False
    then show ?thesis by (simp add: sample.simps)
  next
    case True
    obtain res h1 where si: "sample_inputs env self (input_nodes (h ! self)) seed h = (res, h1)"
      by (cases "sample_inputs env self (input_nodes (h ! self)) seed h")
    have c1: "graph_of h1 = graph_of h" using 1 True si by simp
    show ?thesis
    proof (cases res)
      case (Inl e)
      then show ?thesis using True si c1 by (simp add: sample.simps)
    next
      case (Inr input_samples)
      let ?h2 = "h1[self := (h1 ! self)\<lparr>sampled_value_seed := Some seed\<rparr>]"
      have c2: "graph_of ?h2 = graph_of h" using c1 by (simp add: graph_of_update)
      have "\<And>v. graph_of (?h2[self := (?h2 ! self)\<lparr>sampled_value := Some v\<rparr>]) = graph_of ?h2"
        by (rule graph_of_update) simp_all
      then have c3: "\<And>v. graph_of (?h2[self := (?h2 ! self)\<lparr>sampled_value := Some v\<rparr>]) = graph_of h"
        using c2 by simp
      show ?thesis using True si Inr c2 c3
        by (simp add: sample.simps Let_def split: sum.splits)
    qed
  qed
next
  case (2 env self seed h)
  then show ?case by simp
next
  case (3 env self nm p rest seed h)
  show ?case
  proof (cases "p < self")
    case False
    then show ?thesis by simp
  next
    case True
    obtain res h1 where s: "sample env p seed h = (res, h1)"
      by (cases "sample env p seed h")
    have c1: "graph_of h1 = graph_of h" using 3(1) True s by simp
    show ?thesis
    proof (cases res)
      case (Inl e)
      then show ?thesis using True s c1 by simp
    next
      case (Inr v)
      have "graph_of (snd (sample_inputs env self rest seed h1)) = graph_of h1"
        using 3(2) True s Inr by simp
      then show ?thesis using True s Inr c1
        by (auto split: prod.splits sum.splits)
    qed
  qed
qed

lemma extends_refl: "graph_inv h \<Longrightarrow> extends h h"
  by (simp add: extends_def)

lemma extends_trans: "extends h h1 \<Longrightarrow> extends h1 h2 \<Longrightarrow> extends h h2"
  unfolding extends_def
  by (metis le_trans min.absorb1 take_take)

lemma extends_arg_ok: "extends h h1 \<Longrightarrow> arg_ok h a \<Longrightarrow> arg_ok h1 a"
  by (cases a) (auto simp add: extends_def arg_ok_def)

lemma extends_wrap_constant:
  assumes "graph_inv h"
  shows "\<exists>x. wrap_constant v vdt nm h = (Inr (length h), h @ [x]) \<and> extends h (h @ [x])"
proof -
  obtain x where x: "wrap_constant v vdt nm h = (Inr (length h), h @ [x])"
    and p: "input_nodes x = []" and a: "ancestors x = {length h}"
    by (simp add: wrap_constant_eq)
  have "graph_inv (h @ [x])"
    using assms p a by (intro graph_inv_append) (simp_all add: parents_def)
  then show ?thesis using x by (auto simp add: extends_def)
qed

lemma wire_inputs_extends:
  assumes "graph_inv h" and "\<forall>a \<in> snd ` set kws. arg_ok h a"
    and "wire_inputs wrap_constant nm kws ins h = (res, h1)"
  shows "extends h h1 \<and> (\<forall>ns. res = Inr ns \<longrightarrow> (\<forall>p \<in> snd ` set ns. p < length h1))"
  using assms
proof (induction ins arbitrary: h res h1)
  case Nil
  then show ?case by (auto simp add: extends_refl)
next
  case (Cons i rest)
  show ?case
  proof (cases "map_of kws i")
    case None
    then show ?thesis using Cons.prems by (auto simp add: extends_refl)
  next
    case (Some a)
    then have aok: "arg_ok h a"
      using Cons.prems(2) by (metis map_of_SomeD image_eqI snd_conv)
    show ?thesis
    proof (cases a)
      case (Node p)
      obtain res' h' where w: "wire_inputs wrap_constant nm kws rest h = (res', h')"
        by (cases "wire_inputs wrap_constant nm kws rest h")
      have ih: "extends h h' \<and> (\<forall>ns. res' = Inr ns \<longrightarrow> (\<forall>p \<in> snd ` set ns. p < length h'))"
        using Cons.IH [OF Cons.prems(1) Cons.prems(2) w] .
      have "p < length h'" using aok Node ih by (simp add: arg_ok_def extends_def)
      then show ?thesis using Cons.prems(3) Some Node w ih
        by (cases res') auto
    next
      case PyNone
      then show ?thesis using Cons.IH [OF Cons.prems(1) Cons.prems(2)] Cons.prems(3) Some
        by simp
    next
      case (Raw vdt v)
      obtain x where x: "wrap_constant v vdt (nm @ ''_'' @ i @ ''_fixed'') h = (Inr (length h), h @ [x])"
        and e: "extends h (h @ [x])"
        using extends_wrap_constant [OF Cons.prems(1)] by blast
      obtain res' h' where w: "wire_inputs wrap_constant nm kws rest (h @ [x]) = (res', h')"
        by (cases "wire_inputs wrap_constant nm kws rest (h @ [x])")
      have g: "graph_inv (h @ [x])" using e by (simp add: extends_def)
      have ok: "\<forall>a \<in> snd ` set kws. arg_ok (h @ [x]) a"
        using Cons.prems(2) e extends_arg_ok by blast
      have ih: "extends (h @ [x]) h' \<and> (\<forall>ns. res' = Inr ns \<longrightarrow> (\<forall>p \<in> snd ` set ns. p < length h'))"
        using Cons.IH [OF g ok w] .
      have e2: "extends h h'" using e ih extends_trans by blast
      have "length h < length h'" using ih by (simp add: extends_def)
      then show ?thesis using Cons.prems(3) Some Raw x w ih e2
        by (cases res') auto
    qed
  qed
qed


lemma base_init_extends:
  assumes "graph_inv h" and "\<forall>a \<in> snd ` set kws. arg_ok h a"
    and "ConditionalDistribution_init wrap_constant self0 uuid kw kws h = (res, h')"
  shows "extends h h' \<and> (\<forall>r. res = Inr r \<longrightarrow> length h \<le> r \<and> r < length h')"
proof -
  define nm where "nm = (case kw_name kw of
                  None \<Rightarrow> class_name (cls self0) @ ''_'' @ take 6 uuid
                | Some n \<Rightarrow> n)"
  obtain wres h1 where w: "wire_inputs wrap_constant nm kws (inputs (cls self0)) h = (wres, h1)"
    by (cases "wire_inputs wrap_constant nm kws (inputs (cls self0)) h")
  have e1: "extends h h1" and ps: "\<forall>ns. wres = Inr ns \<longrightarrow> (\<forall>p \<in> snd ` set ns. p < length h1)"
    using wire_inputs_extends [OF assms(1,2) w] by simp_all
  show ?thesis
  proof (cases wres)
    case (Inl e)
    then have "res = Inl e \<and> h' = h1"
      using assms(3) w by (simp add: ConditionalDistribution_init_def Let_def nm_def [symmetric])
    then show ?thesis using e1 by simp
  next
    case (Inr ns)
    have *: "h' = h1 \<and> (\<exists>e. res = Inl e) \<or>
          (\<exists>x. h' = h1 @ [x] \<and> res = Inr (length h1) \<and> input_nodes x = ns
               \<and> ancestors x = insert (length h1) (\<Union>p \<in> snd ` set ns. ancestors (h1 ! p)))"
      using assms(3) w Inr
      by (auto simp add: ConditionalDistribution_init_def Let_def nm_def [symmetric]
          split: sum.splits option.splits)
    then show ?thesis
    proof
      assume "h' = h1 \<and> (\<exists>e. res = Inl e)"
      then show ?thesis using e1 by auto
    next
      assume "\<exists>x. h' = h1 @ [x] \<and> res = Inr (length h1) \<and> input_nodes x = ns
               \<and> ancestors x = insert (length h1) (\<Union>p \<in> snd ` set ns. ancestors (h1 ! p))"
      then obtain x where x: "h' = h1 @ [x]" "res = Inr (length h1)" "input_nodes x = ns"
        "ancestors x = insert (length h1) (\<Union>p \<in> snd ` set ns. ancestors (h1 ! p))"
        by blast
      have "graph_inv (h1 @ [x])"
        using e1 ps Inr x(3,4) by (intro graph_inv_append) (simp_all add: extends_def parents_def)
      then have "extends h1 h'" using x(1) by (simp add: extends_def)
      then have "extends h h'" using e1 extends_trans by blast
      then show ?thesis using x(1,2) e1 by (simp add: extends_def)
    qed
  qed
qed

lemma extends_update:
  assumes "extends h h1" and "length h \<le> r"
    and "input_nodes x = input_nodes (h1 ! r)" and "ancestors x = ancestors (h1 ! r)"
  shows "extends h (h1[r := x])"
proof -
  have "graph_of (h1[r := x]) = graph_of h1"
    using assms(3,4) by (rule graph_of_update)
  then have "graph_inv (h1[r := x])"
    using assms(1) graph_inv_graph_of extends_def by blast
  then show ?thesis using assms(1,2) by (simp add: extends_def)
qed

lemma flat_shape:
  assumes "kw_output_shape kw = None"
  shows "\<exists>x. FlatDistribution_init v vdt fixed uuid kw h = (Inr (length h), h @ [x])
     \<and> input_nodes x = [] \<and> ancestors x = {length h}"
  unfolding FlatDistribution_init_eq [OF assms]
  by simp
lemma constructors_extend:
  assumes "graph_inv h"
  shows "extends h (snd (FlatDistribution_init v vdt fixed uuid kw h))"
    and "arg_ok h A \<Longrightarrow> arg_ok h B \<Longrightarrow> arg_ok h std \<Longrightarrow>
         extends h (snd (NoisyGaussianMatrixProduct_init A B std rescale uuid kw h))"
    and "arg_ok h A \<Longrightarrow> arg_ok h std \<Longrightarrow> extends h (snd (NoisyCumulativeSum_init A std uuid kw h))"
    and "arg_ok h A \<Longrightarrow> arg_ok h B \<Longrightarrow> arg_ok h std \<Longrightarrow>
         extends h (snd (NoisyLatentFeatures_init A B std uuid kw h))"
    and "arg_ok h A \<Longrightarrow> arg_ok h B \<Longrightarrow> arg_ok h std \<Longrightarrow>
         extends h (snd (GMMClustering_init A B std uuid kw h))"
    and "arg_ok h A \<Longrightarrow> arg_ok h std \<Longrightarrow>
         extends h (snd (MultiplicativeGaussianNoise_init A std uuid kw h))"
proof -
  show "extends h (snd (FlatDistribution_init v vdt fixed uuid kw h))"
  proof (cases "kw_output_shape kw")
    case None
    obtain x where x: "FlatDistribution_init v vdt fixed uuid kw h = (Inr (length h), h @ [x])"
      and p: "input_nodes x = []" and a: "ancestors x = {length h}"
      using flat_shape [OF None] by blast
    have "graph_inv (h @ [x])"
      using assms p a by (intro graph_inv_append) (simp_all add: parents_def)
    then show ?thesis using x by (simp add: extends_def)
  next
    case (Some s)
    then show ?thesis using assms by (simp add: FlatDistribution_init_def extends_refl)
  qed
next
  assume a: "arg_ok h A" "arg_ok h B" "arg_ok h std"
  obtain res h1 where b: "ConditionalDistribution_init wrap_constant (new_object NoisyGaussianMatrixProduct)
             uuid kw [(''A'', A), (''B'', B), (''std'', std)] h = (res, h1)"
    by (cases "ConditionalDistribution_init wrap_constant (new_object NoisyGaussianMatrixProduct)
             uuid kw [(''A'', A), (''B'', B), (''std'', std)] h")
  have e: "extends h h1" and r: "\<And>r. res = Inr r \<Longrightarrow> length h \<le> r"
    using base_init_extends [OF assms _ b] a by simp_all
  have "snd (NoisyGaussianMatrixProduct_init A B std rescale uuid kw h) = h1
      \<or> (\<exists>r k. res = Inr r \<and> snd (NoisyGaussianMatrixProduct_init A B std rescale uuid kw h)
             = h1[r := (h1 ! r)\<lparr>node_K := k, node_rescale := rescale\<rparr>])"
    unfolding NoisyGaussianMatrixProduct_init_def b
    by (cases res; cases "bind_err (arg_output_shape A h1) (\<lambda>s. tuple_index s 1)") auto
  then show "extends h (snd (NoisyGaussianMatrixProduct_init A B std rescale uuid kw h))"
    using e r by (auto intro!: extends_update)
next
  assume a: "arg_ok h A" "arg_ok h std"
  obtain res h1 where b: "ConditionalDistribution_init wrap_constant (new_object NoisyCumulativeSum)
             uuid kw [(''A'', A), (''std'', std)] h = (res, h1)"
    by (cases "ConditionalDistribution_init wrap_constant (new_object NoisyCumulativeSum)
             uuid kw [(''A'', A), (''std'', std)] h")
  have "extends h h1"
    using base_init_extends [OF assms _ b] a by simp
  then show "extends h (snd (NoisyCumulativeSum_init A std uuid kw h))"
    using b by (simp add: NoisyCumulativeSum_init_def)
next
  assume a: "arg_ok h A" "arg_ok h B" "arg_ok h std"
  obtain res h1 where b: "ConditionalDistribution_init wrap_constant (new_object NoisyLatentFeatures)
             uuid kw [(''B'', A), (''G'', B), (''std'', std)] h = (res, h1)"
    by (cases "ConditionalDistribution_init wrap_constant (new_object NoisyLatentFeatures)
             uuid kw [(''B'', A), (''G'', B), (''std'', std)] h")
  have e: "extends h h1" and r: "\<And>r. res = Inr r \<Longrightarrow> length h \<le> r"
    using base_init_extends [OF assms _ b] a by simp_all
  have "snd (NoisyLatentFeatures_init A B std uuid kw h) = h1
      \<or> (\<exists>r k. res = Inr r \<and> snd (NoisyLatentFeatures_init A B std uuid kw h)
             = h1[r := (h1 ! r)\<lparr>node_K := k\<rparr>])"
    unfolding NoisyLatentFeatures_init_def b
    by (cases res; cases "bind_err (arg_output_shape A h1) (\<lambda>s. tuple_index s 1)") auto
  then show "extends h (snd (NoisyLatentFeatures_init A B std uuid kw h))"
    using e r by (auto intro!: extends_update)
next
  assume a: "arg_ok h A" "arg_ok h B" "arg_ok h std"
  obtain res h1 where b: "ConditionalDistribution_init wrap_constant (new_object GMMClustering)
             uuid kw [(''weights'', A), (''centers'', B), (''std'', std)] h = (res, h1)"
    by (cases "ConditionalDistribution_init wrap_constant (new_object GMMClustering)
             uuid kw [(''weights'', A), (''centers'', B), (''std'', std)] h")
  have e: "extends h h1" and r: "\<And>r. res = Inr r \<Longrightarrow> length h \<le> r"
    using base_init_extends [OF assms _ b] a by simp_all
  have "snd (GMMClustering_init A B std uuid kw h) = h1
      \<or> (\<exists>r k. res = Inr r \<and> snd (GMMClustering_init A B std uuid kw h)
             = h1[r := (h1 ! r)\<lparr>node_n_clusters := k\<rparr>])"
    unfolding GMMClustering_init_def b
    by (cases res; cases "bind_err (arg_output_shape B h1) (\<lambda>s. tuple_index s 0)") auto
  then show "extends h (snd (GMMClustering_init A B std uuid kw h))"
    using e r by (auto intro!: extends_update)
next
  assume a: "arg_ok h A" "arg_ok h std"
  obtain res h1 where b: "ConditionalDistribution_init wrap_constant (new_object MultiplicativeGaussianNoise)
             uuid kw [(''A'', A), (''std'', std)] h = (res, h1)"
    by (cases "ConditionalDistribution_init wrap_constant (new_object MultiplicativeGaussianNoise)
             uuid kw [(''A'', A), (''std'', std)] h")
  have "extends h h1"
    using base_init_extends [OF assms _ b] a by simp
  then show "extends h (snd (MultiplicativeGaussianNoise_init A std uuid kw h))"
    using b by (simp add: MultiplicativeGaussianNoise_init_def)
qed

lemma attach_q_graph_of: "graph_of (snd (attach_q self q h)) = graph_of h"
  by (simp add: attach_q_def graph_of_update)

lemma observe_graph_of: "graph_of (snd (observe self v h)) = graph_of h"
  using attach_q_graph_of [of self "ObservedQDistribution v" h]
  by (auto simp add: observe_def Let_def split: prod.splits sum.splits)

lemma q_distribution_default_q: "snd (q_distribution default_q self h) = h"
  by (simp add: q_distribution_def default_q_def)

lemma input_qs_default_q: "snd (input_qs default_q ins h) = h"
proof (induction ins arbitrary: h)
  case Nil
  then show ?case by simp
next
  case (Cons a ins)
  obtain nm p where a: "a = (nm, p)" by (cases a)
  obtain r h1 where q: "q_distribution default_q p h = (r, h1)"
    by (cases "q_distribution default_q p h")
  then have h1: "h1 = h" using q_distribution_default_q [of p h] by simp
  show ?case using Cons.IH [of h] a q h1
    by (auto split: sum.splits prod.splits)
qed

lemma elbo_term_default_q: "snd (elbo_term elp default_q self h) = h"
proof -
  obtain r h1 where i: "input_qs default_q (input_nodes (h ! self)) h = (r, h1)"
    by (cases "input_qs default_q (input_nodes (h ! self)) h")
  then have h1: "h1 = h" using input_qs_default_q [of "input_nodes (h ! self)" h] by simp
  obtain r2 h2 where q: "q_distribution default_q self h = (r2, h2)"
    by (cases "q_distribution default_q self h")
  then have h2: "h2 = h" using q_distribution_default_q [of self h] by simp
  show ?thesis using i h1 q h2
    by (auto simp add: elbo_term_def Let_def split: sum.splits option.splits)
qed

lemma extends_frame:
  assumes "extends h h'"
  shows "graph_inv h' \<and> length h \<le> length h' \<and> take (length h) (graph_of h') = graph_of h"
  using assms by (simp add: extends_def graph_of_def take_map)

lemma same_graph_frame:
  assumes "graph_of h' = graph_of h" and "graph_inv h"
  shows "graph_inv h' \<and> length h \<le> length h' \<and> take (length h) (graph_of h') = graph_of h"
  using assms graph_inv_graph_of [OF assms] by (metis length_graph_of order_refl take_all)

lemma after_frame:
  assumes "graph_inv h" and "call_ok h c"
  shows "graph_inv (after c h) \<and> length h \<le> length (after c h)
         \<and> take (length h) (graph_of (after c h)) = graph_of h"
proof (cases c)
  case (New_FlatDistribution v vdt fixed uuid kw)
  then have "extends h (after c h)"
    using constructors_extend(1) [OF assms(1)] assms(2) by simp
  then show ?thesis by (rule extends_frame)
next
  case (New_NoisyGaussianMatrixProduct A B std rescale uuid kw)
  then have "extends h (after c h)"
    using constructors_extend(2) [OF assms(1)] assms(2) by simp
  then show ?thesis by (rule extends_frame)
next
  case (New_NoisyCumulativeSum A std uuid kw)
  then have "extends h (after c h)"
    using constructors_extend(3) [OF assms(1)] assms(2) by simp
  then show ?thesis by (rule extends_frame)
next
  case (New_NoisyLatentFeatures B G std uuid kw)
  then have "extends h (after c h)"
    using constructors_extend(4) [OF assms(1)] assms(2) by simp
  then show ?thesis by (rule extends_frame)
next
  case (New_GMMClustering weights centers std uuid kw)
  then have "extends h (after c h)"
    using constructors_extend(5) [OF assms(1)] assms(2) by simp
  then show ?thesis by (rule extends_frame)
next
  case (New_MultiplicativeGaussianNoise A std uuid kw)
  then have "extends h (after c h)"
    using constructors_extend(6) [OF assms(1)] assms(2) by simp
  then show ?thesis by (rule extends_frame)
next
  case (Call_sample env self seed)
  then show ?thesis using same_graph_frame [OF sample_graph_of(1) assms(1)] by simp
next
  case (Call_attach_q self q)
  then show ?thesis using same_graph_frame [OF attach_q_graph_of assms(1)] by simp
next
  case (Call_observe self v)
  then show ?thesis using same_graph_frame [OF observe_graph_of assms(1)] by simp
next
  case (Call_q_distribution self)
  then show ?thesis using same_graph_frame [OF refl assms(1)] by (simp add: q_distribution_default_q)
next
  case (Call_elbo_term elp self)
  then show ?thesis using same_graph_frame [OF refl assms(1)] by (simp add: elbo_term_default_q)
qed

lemma run_frame:
  assumes "graph_inv h" and "calls_ok h cs"
  shows "graph_inv (run cs h) \<and> length h \<le> length (run cs h)
         \<and> take (length h) (graph_of (run cs h)) = graph_of h"
  using assms
proof (induction cs arbitrary: h)
  case Nil
  then show ?case by simp
next
  case (Cons c cs)
  have a: "graph_inv (after c h) \<and> length h \<le> length (after c h)
         \<and> take (length h) (graph_of (after c h)) = graph_of h"
    using after_frame Cons.prems by simp
  have b: "graph_inv (run cs (after c h)) \<and> length (after c h) \<le> length (run cs (after c h))
         \<and> take (length (after c h)) (graph_of (run cs (after c h))) = graph_of (after c h)"
    using Cons.IH [of "after c h"] a Cons.prems by simp
  have "take (length h) (graph_of (run cs (after c h))) = graph_of h"
    using a b by (metis min.absorb1 take_take)
  then show ?case using a b by simp
qed

lemma graph_inv_Nil: "graph_inv []"
  by (simp add: graph_inv_def)


text \<open>
  Claim C4.  In every store a client can build from the empty store, every node's
  \<^verbatim>\<open>ancestors\<close> is the node itself together with the ancestors of the nodes in its
  \<^verbatim>\<open>input_nodes\<close>, and just the node itself when it has no inputs.  Whatever the client
  calls afterwards (constructors, \<^verbatim>\<open>sample\<close>, \<^verbatim>\<open>attach_q\<close>, \<^verbatim>\<open>observe\<close>,
  \<^verbatim>\<open>q_distribution\<close>, \<^verbatim>\<open>elbo_term\<close>; returning or raising), the node keeps its
  \<^verbatim>\<open>input_nodes\<close> and its \<^verbatim>\<open>ancestors\<close>.
\<close>

theorem ancestors_invariant:
  assumes "calls_ok [] cs" and "h = run cs []" and "calls_ok h cs'" and "n < length h"
  shows "ancestors (h ! n) = insert n (\<Union>p \<in> parents (h ! n). ancestors (h ! p))
     \<and> (input_nodes (h ! n) = [] \<longrightarrow> ancestors (h ! n) = {n})
     \<and> n < length (run cs' h)
     \<and> input_nodes (run cs' h ! n) = input_nodes (h ! n)
     \<and> ancestors (run cs' h ! n) = ancestors (h ! n)"
proof -
  have g: "graph_inv h"
    using run_frame [OF graph_inv_Nil assms(1)] assms(2) by simp
  then have eq: "ancestors (h ! n) = insert n (\<Union>p \<in> parents (h ! n). ancestors (h ! p))"
    using assms(4) by (simp add: graph_inv_def)
  then have leaf: "input_nodes (h ! n) = [] \<longrightarrow> ancestors (h ! n) = {n}"
    by (simp add: parents_def)
  have f: "length h \<le> length (run cs' h)"
    and t: "take (length h) (graph_of (run cs' h)) = graph_of h"
    using run_frame [OF g assms(3)] by simp_all
  have n': "n < length (run cs' h)" using f assms(4) by simp
  have "graph_of (run cs' h) ! n = graph_of h ! n"
    using t assms(4) by (metis nth_take)
  then have "input_nodes (run cs' h ! n) = input_nodes (h ! n)
      \<and> ancestors (run cs' h ! n) = ancestors (h ! n)"
    using n' assms(4) by (simp add: graph_of_nth)
  then show ?thesis using eq leaf n' by simp
qed

theorem ancestors_invariant_witness:
  "calls_ok [] ex_calls \<and> calls_ok (run ex_calls []) [Call_observe 3 ex_A53]
   \<and> 3 < length (run ex_calls [])
   \<and> ancestors (run ex_calls [] ! 3)
       = insert 3 (\<Union>p \<in> parents (run ex_calls [] ! 3). ancestors (run ex_calls [] ! p))
   \<and> parents (run ex_calls [] ! 3) = {1, 2}
   \<and> ancestors (run [Call_observe 3 ex_A53] (run ex_calls []) ! 3)
       = ancestors (run ex_calls [] ! 3)"
proof -
  note r = ex_run_eq
  have len: "length (run ex_calls []) = 4"
    by (simp add: r ex_B_std_eq)
  have ok: "calls_ok [] ex_calls"
    by (simp add: ex_calls_def FlatDistribution_init_eq kw_none_def arg_ok_def)
  have ok': "calls_ok (run ex_calls []) [Call_observe 3 ex_A53]"
    by (simp add: len)
  have par: "parents (run ex_calls [] ! 3) = {1, 2}"
    by (auto simp add: r ex_B_std_eq parents_def)
  show ?thesis
    using ancestors_invariant [OF ok refl ok', of 3] ok ok' len par by simp
qed

section \<open>The sample cache\<close>

text \<open>Sampling changes no length; a call with the cached seed and a call with another one.\<close>

lemma sample_length:
  "length (snd (sample env self seed h)) = length h"
  "length (snd (sample_inputs env self ins seed h)) = length h"
  using sample_graph_of(1) [of env self seed h] sample_graph_of(2) [of env self ins seed h]
  by (metis length_graph_of)+

lemma sample_hit:
  assumes "sampled_value_seed (h ! self) = Some seed"
  shows "sample env self seed h = (Inr (sampled_value (h ! self)), h)"
  using assms by (simp add: sample.simps)

lemma sample_miss:
  assumes "sampled_value_seed (h ! self) \<noteq> Some seed" and "self < length h"
    and "sample env self seed h = (Inr v, h1)"
  shows "\<exists>ins h0 x. sample_inputs env self (input_nodes (h ! self)) seed h = (Inr ins, h0)
          \<and> sample_impl env ((h0 ! self)\<lparr>sampled_value_seed := Some seed\<rparr>)
               ((seed + str_hash env (name (h0 ! self))) mod 2 ^ 32) ins = Inr x
          \<and> v = Some x
          \<and> h1 = h0[self := (h0 ! self)\<lparr>sampled_value_seed := Some seed, sampled_value := Some x\<rparr>]
          \<and> length h0 = length h"
proof -
  obtain res h0 where si: "sample_inputs env self (input_nodes (h ! self)) seed h = (res, h0)"
    by (cases "sample_inputs env self (input_nodes (h ! self)) seed h")
  have len: "length h0 = length h"
    using sample_length(2) [of env self "input_nodes (h ! self)" seed h] si by simp
  then have s: "self < length h0" using assms(2) by simp
  have ne: "Some seed \<noteq> sampled_value_seed (h ! self)" using assms(1) by auto
  show ?thesis
  proof (cases res)
    case (Inl e)
    then show ?thesis using assms(3) si ne by (simp add: sample.simps)
  next
    case (Inr ins)
    show ?thesis
    proof (cases "sample_impl env ((h0 ! self)\<lparr>sampled_value_seed := Some seed\<rparr>)
               ((seed + str_hash env (name (h0 ! self))) mod 2 ^ 32) ins")
      case (Inl e)
      then show ?thesis using assms(3) si ne Inr s by (simp add: sample.simps Let_def)
    next
      case (Inr x)
      then show ?thesis using assms(3) si ne \<open>res = Inr ins\<close> s len
        by (auto simp add: sample.simps Let_def simp del: split_paired_Ex)
    qed
  qed
qed

text \<open>
  The check of \<open>sample_inputs\<close> that a parent's reference is smaller never fails on a
  store that satisfies the invariant (as every store built by the constructors does):
  no error of \<^verbatim>\<open>sample\<close> is the \<open>RecursionError\<close> of that check, provided the random
  generator does not raise it.
\<close>

lemma bind_err_Inl:
  "bind_err m f = Inl e \<Longrightarrow> m = Inl e \<or> (\<exists>x. m = Inr x \<and> f x = Inl e)"
  by (cases m) (simp_all add: bind_err_def)

lemma broadcast2_error: "broadcast2 f a b = Inl e \<Longrightarrow> e = ValueError"
  by (auto simp add: broadcast2_def split: option.splits)

lemma array_ops_no_RecursionError:
  "arr_mul a b \<noteq> Inl RecursionError" "arr_add a b \<noteq> Inl RecursionError"
  "np_dot a b \<noteq> Inl RecursionError" "take_rows a idx \<noteq> Inl RecursionError"
  "kwcall ps d \<noteq> Inl RecursionError" "not_none xs \<noteq> Inl RecursionError"
  using broadcast2_error [of "(*)" a b RecursionError] broadcast2_error [of "(+)" a b RecursionError]
  by (auto simp add: arr_mul_def arr_add_def np_dot_def take_rows_def kwcall_def not_none_def)

lemma nd_ops_no_RecursionError:
  "nd_mul x y \<noteq> Inl RecursionError" "nd_add x y \<noteq> Inl RecursionError"
  "nd_dot x y \<noteq> Inl RecursionError" "nd_idiv x c \<noteq> Inl RecursionError"
  by (auto dest!: bind_err_Inl
      simp add: nd_mul_def nd_add_def nd_dot_def nd_idiv_def array_ops_no_RecursionError)

lemma samples_no_RecursionError:
  assumes "\<And>s sh k n w. choice env s sh k n w \<noteq> Inl RecursionError"
  shows "NGMP_sample env self ls A B std \<noteq> Inl RecursionError"
    and "NCS_sample env self ls A std \<noteq> Inl RecursionError"
    and "NLF_sample env self ls A B std \<noteq> Inl RecursionError"
    and "GMM_sample env self ls A B std \<noteq> Inl RecursionError"
    and "MGN_sample env self ls A std \<noteq> Inl RecursionError"
proof -
  show "NGMP_sample env self ls A B std \<noteq> Inl RecursionError"
    unfolding NGMP_sample_def
    by (auto dest!: bind_err_Inl simp add: nd_ops_no_RecursionError split: if_splits)
  show "NCS_sample env self ls A std \<noteq> Inl RecursionError"
    unfolding NCS_sample_def
    by (auto dest!: bind_err_Inl simp add: nd_ops_no_RecursionError)
  show "NLF_sample env self ls A B std \<noteq> Inl RecursionError"
    unfolding NLF_sample_def
    by (auto dest!: bind_err_Inl simp add: nd_ops_no_RecursionError)
  show "GMM_sample env self ls A B std \<noteq> Inl RecursionError"
    unfolding GMM_sample_def
    using assms
    by (auto dest!: bind_err_Inl
        simp add: array_ops_no_RecursionError nd_ops_no_RecursionError split: list.splits)
  show "MGN_sample env self ls A std \<noteq> Inl RecursionError"
    unfolding MGN_sample_def
    by (auto dest!: bind_err_Inl simp add: nd_ops_no_RecursionError)
qed

lemma sample_impl_no_RecursionError:
  assumes "\<And>s sh k n w. choice env s sh k n w \<noteq> Inl RecursionError"
  shows "sample_impl env self ls d \<noteq> Inl RecursionError"
  unfolding sample_impl_def
  by (cases "cls self")
     (auto dest!: bind_err_Inl simp add: array_ops_no_RecursionError samples_no_RecursionError [OF assms])

lemma sample_descends:
  assumes c: "\<And>s sh k n w. choice env s sh k n w \<noteq> Inl RecursionError"
  shows "graph_inv h \<Longrightarrow> self < length h \<Longrightarrow> fst (sample env self seed h) \<noteq> Inl RecursionError"
    and "graph_inv h \<Longrightarrow> self < length h \<Longrightarrow> \<forall>p \<in> snd ` set ins. p < self \<Longrightarrow>
         fst (sample_inputs env self ins seed h) \<noteq> Inl RecursionError"
  using c
proof (induction env self seed h and env self ins seed h rule: sample_sample_inputs.induct)
  case (1 env self seed h)
  show ?case
  proof (cases "Some seed \<noteq> sampled_value_seed (h ! self)")
    case False
    then show ?thesis by (simp add: sample.simps)
  next
    case True
    have par: "\<forall>p \<in> snd ` set (input_nodes (h ! self)). p < self"
      using "1.prems"(1,2) by (simp add: graph_inv_def parents_def)
    obtain res h1 where si: "sample_inputs env self (input_nodes (h ! self)) seed h = (res, h1)"
      by (cases "sample_inputs env self (input_nodes (h ! self)) seed h")
    have r: "res \<noteq> Inl RecursionError"
      using "1.IH" [OF True "1.prems"(1,2) par] "1.prems"(3) si by simp
    show ?thesis
    proof (cases res)
      case (Inl e)
      then show ?thesis using True si r by (simp add: sample.simps)
    next
      case (Inr input_samples)
      then show ?thesis
        using True si sample_impl_no_RecursionError [of env] "1.prems"(3)
        by (auto simp add: sample.simps Let_def split: sum.splits)
    qed
  qed
next
  case (2 env self seed h)
  then show ?case by simp
next
  case (3 env self nm p rest seed h)
  have p: "p < self" using "3.prems"(3) by simp
  then have pl: "p < length h" using "3.prems"(2) by simp
  obtain res h1 where s: "sample env p seed h = (res, h1)"
    by (cases "sample env p seed h")
  have r: "res \<noteq> Inl RecursionError"
    using "3.IH"(1) [OF p "3.prems"(1) pl] "3.prems"(4) s by simp
  have g: "graph_of h1 = graph_of h"
    using sample_graph_of(1) [of env p seed h] s by simp
  have g1: "graph_inv h1" using graph_inv_graph_of [OF g "3.prems"(1)] .
  have l1: "self < length h1" using g "3.prems"(2) by (metis length_graph_of)
  show ?case
  proof (cases res)
    case (Inl e)
    then show ?thesis using p s r by simp
  next
    case (Inr v)
    have "fst (sample_inputs env self rest seed h1) \<noteq> Inl RecursionError"
      using "3.IH"(2) [OF p s [symmetric] Inr g1 l1] "3.prems"(3,4) by simp
    then show ?thesis using p s Inr
      by (auto split: prod.splits sum.splits)
  qed
qed

text \<open>Sampling the cumulative-sum node of the example, whose parents are sampled first.\<close>

lemma ex_sample:
  "fst (sample ex_env 3 7 (run ex_calls [])) =
     Inr (Some (float64, [[33 / 25, 58 / 25, 83 / 25], [133 / 25, 183 / 25, 233 / 25],
        [308 / 25, 383 / 25, 458 / 25], [333 / 25, 383 / 25, 483 / 25],
        [333 / 25, 408 / 25, 483 / 25]]))"
  by (simp add: ex_run_eq ex_B_std_eq sample.simps Let_def sample_impl_def kwcall_def not_none_def
      bind_err_def NCS_sample_def ex_env_def nd_mul_def nd_add_def nd_cumsum0_def
      promote_types_def arr_mul_def arr_add_def broadcast2_def bc_dim_def
      nrows_def ncols_def stretch_def np_cumsum0_def ex_A53_def numeral_3_eq_3 eval_nat_numeral)

text \<open>
  Claim C3.  When \<^verbatim>\<open>sample(seed)\<close> returns, the node's seed marker is \<open>seed\<close> and the
  cache holds the returned value; a second call with the same seed returns the same
  value and leaves the store as it is, whatever the random generator would produce now
  (nothing is recomputed or drawn again).  A call with a seed other than the marker
  samples the parents, calls \<^verbatim>\<open>_sample\<close> with the generator seeded by
  \<^verbatim>\<open>(seed + hash(name)) % 2**32\<close>, returns that value and sets the marker to the new
  seed.
\<close>

theorem sample_deterministic:
  assumes "self < length h" and "sample env self seed h = (Inr v, h1)"
  shows "sampled_value_seed (h1 ! self) = Some seed \<and> sampled_value (h1 ! self) = v
     \<and> (\<forall>env'. sample env' self seed h1 = (Inr v, h1))
     \<and> (sampled_value_seed (h ! self) = Some seed \<longrightarrow> h1 = h)
     \<and> (sampled_value_seed (h ! self) \<noteq> Some seed \<longrightarrow>
          (\<exists>ins h0 x. sample_inputs env self (input_nodes (h ! self)) seed h = (Inr ins, h0)
             \<and> sample_impl env ((h0 ! self)\<lparr>sampled_value_seed := Some seed\<rparr>)
                  ((seed + str_hash env (name (h0 ! self))) mod 2 ^ 32) ins = Inr x
             \<and> v = Some x))"
proof (cases "sampled_value_seed (h ! self) = Some seed")
  case True
  have "h1 = h" "v = sampled_value (h ! self)"
    using sample_hit [OF True, of env] assms(2) by simp_all
  then show ?thesis using True sample_hit [OF True] by simp
next
  case False
  obtain ins h0 x where m: "sample_inputs env self (input_nodes (h ! self)) seed h = (Inr ins, h0)"
      "sample_impl env ((h0 ! self)\<lparr>sampled_value_seed := Some seed\<rparr>)
               ((seed + str_hash env (name (h0 ! self))) mod 2 ^ 32) ins = Inr x"
      "v = Some x"
      "h1 = h0[self := (h0 ! self)\<lparr>sampled_value_seed := Some seed, sampled_value := Some x\<rparr>]"
      "length h0 = length h"
    using sample_miss [OF False assms] by blast
  have s: "self < length h0" using m(5) assms(1) by simp
  have a: "sampled_value_seed (h1 ! self) = Some seed" "sampled_value (h1 ! self) = v"
    using m(3,4) s by simp_all
  have "\<forall>env'. sample env' self seed h1 = (Inr v, h1)"
    using sample_hit [OF a(1)] a(2) by simp
  then show ?thesis using a m(1,2,3) False by blast
qed

theorem sample_deterministic_witness:
  "3 < length (run ex_calls []) \<and> sampled_value_seed (run ex_calls [] ! 3) \<noteq> Some 7
   \<and> fst (sample ex_env 3 7 (run ex_calls [])) =
       Inr (Some (float64, [[33 / 25, 58 / 25, 83 / 25], [133 / 25, 183 / 25, 233 / 25],
        [308 / 25, 383 / 25, 458 / 25], [333 / 25, 383 / 25, 483 / 25],
        [333 / 25, 408 / 25, 483 / 25]]))
   \<and> sample ex_env 3 7 (snd (sample ex_env 3 7 (run ex_calls []))) =
       (Inr (Some (float64, [[33 / 25, 58 / 25, 83 / 25], [133 / 25, 183 / 25, 233 / 25],
        [308 / 25, 383 / 25, 458 / 25], [333 / 25, 383 / 25, 483 / 25],
        [333 / 25, 408 / 25, 483 / 25]])), snd (sample ex_env 3 7 (run ex_calls [])))
   \<and> sampled_value_seed (snd (sample ex_env 3 7 (run ex_calls [])) ! 3) = Some 7"
proof -
  have l: "3 < length (run ex_calls [])"
    by (simp add: ex_run_eq ex_B_std_eq)
  have n: "sampled_value_seed (run ex_calls [] ! 3) \<noteq> Some 7"
    by (simp add: ex_run_eq ex_B_std_eq)
  have s: "sample ex_env 3 7 (run ex_calls []) =
       (Inr (Some (float64, [[33 / 25, 58 / 25, 83 / 25], [133 / 25, 183 / 25, 233 / 25],
        [308 / 25, 383 / 25, 458 / 25], [333 / 25, 383 / 25, 483 / 25],
        [333 / 25, 408 / 25, 483 / 25]])), snd (sample ex_env 3 7 (run ex_calls [])))"
    using ex_sample by (metis prod.collapse)
  show ?thesis
    using sample_deterministic [OF l s] l n ex_sample by simp
qed

section \<open>The ELBO term: scaling and symmetry corrections\<close>

text \<open>The corrections are logarithms of factorials and of powers of two.\<close>

lemma ln24: "ln 1 + (ln 2 + (ln 3 + ln (4::real))) = ln 24"
  using ln_mult_pos [of "3::real" 4] ln_mult_pos [of "2::real" 12] by simp

lemma ln6: "ln 1 + (ln 2 + ln (3::real)) = ln 6"
  using ln_mult_pos [of "2::real" 3] by simp

lemma perm4: "permutation_correction 4 = ln 24"
proof -
  have "[1..<4 + 1] = [1, 2, 3, 4::nat]" by (simp add: upt_rec)
  then have "permutation_correction 4 = ln 1 + (ln 2 + (ln 3 + ln (4::real)))"
    by (simp add: permutation_correction_def)
  then show ?thesis using ln24 by simp
qed

lemma perm3: "permutation_correction 3 = ln 6"
proof -
  have "[1..<3 + 1] = [1, 2, 3::nat]" by (simp add: upt_rec)
  then have "permutation_correction 3 = ln 1 + (ln 2 + ln (3::real))"
    by (simp add: permutation_correction_def)
  then show ?thesis using ln6 by simp
qed

lemma perm_fact: "permutation_correction k = ln (real (fact k))"
proof (induction k)
  case 0
  then show ?case by (simp add: permutation_correction_def)
next
  case (Suc k)
  have "permutation_correction (Suc k) = permutation_correction k + ln (real (Suc k))"
    by (simp add: permutation_correction_def)
  also have "\<dots> = ln (real (fact k)) + ln (real (Suc k))"
    using Suc by simp
  also have "\<dots> = ln (real (fact k) * real (Suc k))"
    by (rule ln_mult_pos [symmetric]) simp_all
  also have "real (fact k) * real (Suc k) = real (fact (Suc k))"
    by (simp add: algebra_simps)
  finally show ?case .
qed

lemma sf4: "signflip_correction 4 = 4 * ln 2"
  by (simp add: signflip_correction_def)

text \<open>The example stores, and the ELBO term of the example product.\<close>

lemma ex_ngmp_eq:
  "ex_ngmp s =
    [\<lparr>cls = FlatDistribution, name = ''A'', minibatch_scale_factor = None,
      input_nodes = [], output_shape = [1, 4], dtype = float64, ancestors = {0},
      sampled_value = None, sampled_value_seed = None,
      q_dist = Some (ObservedQDistribution [[1, 2, 3, 4]]), flat_value = (float64, [[1, 2, 3, 4]]),
      node_K = 0, node_rescale = False, node_n_clusters = 0\<rparr>,
     \<lparr>cls = FlatDistribution, name = ''B'', minibatch_scale_factor = None,
      input_nodes = [], output_shape = [1, 4], dtype = float64, ancestors = {1},
      sampled_value = None, sampled_value_seed = None,
      q_dist = Some (ObservedQDistribution [[1, 0, 1, 0]]), flat_value = (float64, [[1, 0, 1, 0]]),
      node_K = 0, node_rescale = False, node_n_clusters = 0\<rparr>,
     \<lparr>cls = FlatDistribution, name = ''std'', minibatch_scale_factor = None,
      input_nodes = [], output_shape = [1, 1], dtype = float64, ancestors = {2},
      sampled_value = None, sampled_value_seed = None,
      q_dist = Some (ObservedQDistribution [[1 / 10]]), flat_value = (float64, [[1 / 10]]),
      node_K = 0, node_rescale = False, node_n_clusters = 0\<rparr>,
     \<lparr>cls = NoisyGaussianMatrixProduct, name = ''NoisyGaussianMatrixProduct_3f2a9c'',
      minibatch_scale_factor = s,
      input_nodes = [(''A'', 0), (''B'', 1), (''std'', 2)], output_shape = [1, 1],
      dtype = float64, ancestors = {3, 0, 1, 2},
      sampled_value = None, sampled_value_seed = None,
      q_dist = Some ex_q11, flat_value = (float32, []),
      node_K = 4, node_rescale = True, node_n_clusters = 0\<rparr>]"
  by (auto simp add: ex_ngmp_def ex_ngmp_calls_def NoisyGaussianMatrixProduct_init_def
        ConditionalDistribution_init_def Let_def inputs_def FlatDistribution_init_eq kw_none_def
        compute_shape_def compute_dtype_def kwcall_def bind_err_def assert_eq_def
        arg_output_shape_def tuple_index_def attach_q_def ex_q11_def
        np_shape_def ex_uuid_def class_name_def new_object_def)

lemma ex_elbo:
  "elbo_term (NGMP_expected_logp_kw ex_env) default_q 3 (ex_ngmp s) =
     (Inr (case s of None \<Rightarrow> (ex_elp, 2) | Some c \<Rightarrow> (ex_elp * c, 2 * c)), ex_ngmp s)"
  apply (simp add: ex_ngmp_eq elbo_term_def q_distribution_def ObservedQDistribution_def
      NGMP_expected_logp_kw_def kwcall_def not_none_def bind_err_def NGMP_expected_logp_def
      NGMP_var_def NGMP_gaussian_lp_def NGMP_expected_result_def NGMP_correction_def
      arr_add_def arr_div_def broadcast2_def bc_dim_def nrows_def ncols_def stretch_def
      tf_square_def tf_matmul_def np_dot_def tf_transpose_def dot_row_def tf_reduce_sum_def
      arr_div_scalar_def ex_env_def ex_q11_def ex_elp_def Let_def np_shape_def
      split: option.splits)
  done

lemma ex_gmm_eq:
  "ex_gmm =
    [\<lparr>cls = FlatDistribution, name = ''weights'', minibatch_scale_factor = None,
      input_nodes = [], output_shape = [3, 1], dtype = float64, ancestors = {0},
      sampled_value = None, sampled_value_seed = None,
      q_dist = Some (ObservedQDistribution [[1 / 3], [1 / 3], [1 / 3]]),
      flat_value = (float64, [[1 / 3], [1 / 3], [1 / 3]]),
      node_K = 0, node_rescale = False, node_n_clusters = 0\<rparr>,
     \<lparr>cls = FlatDistribution, name = ''centers'', minibatch_scale_factor = None,
      input_nodes = [], output_shape = [3, 2], dtype = float64, ancestors = {1},
      sampled_value = None, sampled_value_seed = None,
      q_dist = Some (ObservedQDistribution [[0, 0], [10, 10], [20, 20]]),
      flat_value = (float64, [[0, 0], [10, 10], [20, 20]]),
      node_K = 0, node_rescale = False, node_n_clusters = 0\<rparr>,
     \<lparr>cls = FlatDistribution, name = ''std'', minibatch_scale_factor = None,
      input_nodes = [], output_shape = [1, 1], dtype = float64, ancestors = {2},
      sampled_value = None, sampled_value_seed = None,
      q_dist = Some (ObservedQDistribution [[1 / 10]]), flat_value = (float64, [[1 / 10]]),
      node_K = 0, node_rescale = False, node_n_clusters = 0\<rparr>,
     \<lparr>cls = GMMClustering, name = ''GMMClustering_3f2a9c'',
      minibatch_scale_factor = None,
      input_nodes = [(''weights'', 0), (''centers'', 1), (''std'', 2)], output_shape = [2, 2],
      dtype = float64, ancestors = {3, 0, 1, 2},
      sampled_value = None, sampled_value_seed = None,
      q_dist = Some ex_q22, flat_value = (float32, []),
      node_K = 0, node_rescale = False, node_n_clusters = 3\<rparr>]"
  by (auto simp add: ex_gmm_def GMMClustering_init_def
        ConditionalDistribution_init_def Let_def inputs_def FlatDistribution_init_eq kw_none_def
        compute_shape_def compute_dtype_def kwcall_def bind_err_def assert_eq_def
        arg_output_shape_def tuple_index_def attach_q_def ex_q22_def
        np_shape_def ex_uuid_def class_name_def new_object_def)

lemma ex_gmm_elbo:
  "elbo_term (default_expected_logp (GMM_logp_kw ex_env)) default_q 3 ex_gmm =
     (Inr (ex_gmm_elp, 3), ex_gmm)"
  by (simp add: ex_gmm_eq elbo_term_def q_distribution_def ObservedQDistribution_def
      default_expected_logp_def GMM_logp_kw_def GMM_logp_def kwcall_def bind_err_def
      tf_log_def tf_reduce_sum1_def tf_reduce_sum_def
      arr_add_def broadcast2_def bc_dim_def nrows_def ncols_def stretch_def
      ex_env_def ex_q22_def ex_gmm_elp_def Let_def np_shape_def
      split: option.splits)

text \<open>
  With the base \<^verbatim>\<open>default_q\<close>, \<^verbatim>\<open>elbo_term\<close> reads the store and leaves it as it is.
\<close>

lemma q_distribution_default_eq:
  "q_distribution default_q p h =
     (case q_dist (h ! p) of
        None \<Rightarrow> Inl (Exception ''default Q distribution not implemented!'')
      | Some q \<Rightarrow> Inr (Some q), h)"
  by (simp add: q_distribution_def default_q_def split: option.splits)

lemma input_qs_default_cong:
  assumes "\<forall>p. q_dist (h' ! p) = q_dist (h ! p)"
  shows "fst (input_qs default_q ins h') = fst (input_qs default_q ins h)"
proof (induction ins)
  case Nil
  then show ?case by simp
next
  case (Cons a ins)
  obtain nm p where a: "a = (nm, p)" by (cases a)
  obtain r where r: "input_qs default_q ins h = (r, h)"
    using input_qs_default_q by (metis prod.collapse)
  obtain r' where r': "input_qs default_q ins h' = (r', h')"
    using input_qs_default_q by (metis prod.collapse)
  have "r' = r" using Cons r r' by simp
  then show ?case
    using assms r r' a
    by (simp add: q_distribution_default_eq split: option.splits sum.splits)
qed

lemma elbo_term_default_eq:
  "elbo_term elp default_q self h =
     (case fst (input_qs default_q (input_nodes (h ! self)) h) of
        Inl err \<Rightarrow> Inl err
      | Inr iqs \<Rightarrow>
          (case q_dist (h ! self) of
             None \<Rightarrow> Inl (Exception ''default Q distribution not implemented!'')
           | Some qq \<Rightarrow>
               (case elp (h ! self) (Some qq) iqs of
                  Inl err \<Rightarrow> Inl err
                | Inr e0 \<Rightarrow>
                    (case minibatch_scale_factor (h ! self) of
                       None \<Rightarrow> Inr (e0, q_entropy qq)
                     | Some s \<Rightarrow> Inr (e0 * s, q_entropy qq * s)))), h)"
proof -
  have s: "input_qs default_q (input_nodes (h ! self)) h
      = (fst (input_qs default_q (input_nodes (h ! self)) h), h)"
    using input_qs_default_q by (metis prod.collapse)
  show ?thesis
    unfolding elbo_term_def
    by (subst s) (simp add: q_distribution_default_eq Let_def split: option.splits sum.splits)
qed

lemma corrections_pos: "ln (24::real) + 4 * ln 2 > 0"
proof -
  have "ln (24::real) > 0" "ln (2::real) > 0" by simp_all
  then show ?thesis by linarith
qed

lemma NGMP_elp_ignores_scale:
  "NGMP_expected_logp_kw env (n\<lparr>minibatch_scale_factor := c\<rparr>) = NGMP_expected_logp_kw env n"
  by (intro ext) (simp add: NGMP_expected_logp_kw_def NGMP_expected_logp_def NGMP_gaussian_lp_def
      NGMP_expected_result_def NGMP_correction_def cong: if_cong)

text \<open>
  Claim C1 as stated fails for a node whose \<^verbatim>\<open>elbo_term\<close> adds a symmetry correction:
  the correction is added after the base method has scaled.  In the example the same
  product node has the expected log-probability \<open>ex_elp + ln 24 + 4 ln 2\<close> without a
  scale factor and \<open>10 ex_elp + ln 24 + 4 ln 2\<close> with the factor 10, which is not ten
  times the former; the entropy goes from 2 to 20.
\<close>

theorem minibatch_scaling_counterexample:
  "NGMP_elbo_term (NGMP_expected_logp_kw ex_env) default_q True 3 (ex_ngmp None)
     = (Inr (ex_elp + ln 24 + 4 * ln 2, 2), ex_ngmp None)
   \<and> ex_ngmp (Some 10) = (ex_ngmp None)[3 := (ex_ngmp None ! 3)\<lparr>minibatch_scale_factor := Some 10\<rparr>]
   \<and> NGMP_elbo_term (NGMP_expected_logp_kw ex_env) default_q True 3 (ex_ngmp (Some 10))
     = (Inr (ex_elp * 10 + ln 24 + 4 * ln 2, 20), ex_ngmp (Some 10))
   \<and> ex_elp * 10 + ln 24 + 4 * ln 2 \<noteq> 10 * (ex_elp + ln 24 + 4 * ln 2)"
proof -
  have k: "node_K (ex_ngmp s ! 3) = 4" for s
    by (simp add: ex_ngmp_eq)
  have a: "NGMP_elbo_term (NGMP_expected_logp_kw ex_env) default_q True 3 (ex_ngmp None)
     = (Inr (ex_elp + ln 24 + 4 * ln 2, 2), ex_ngmp None)"
    by (simp add: NGMP_elbo_term_def ex_elbo k perm4 sf4)
  have b: "NGMP_elbo_term (NGMP_expected_logp_kw ex_env) default_q True 3 (ex_ngmp (Some 10))
     = (Inr (ex_elp * 10 + ln 24 + 4 * ln 2, 20), ex_ngmp (Some 10))"
    by (simp add: NGMP_elbo_term_def ex_elbo k perm4 sf4)
  have c: "ex_ngmp (Some 10) = (ex_ngmp None)[3 := (ex_ngmp None ! 3)\<lparr>minibatch_scale_factor := Some 10\<rparr>]"
    by (simp add: ex_ngmp_eq)
  have d: "ex_elp * 10 + ln 24 + 4 * ln 2 \<noteq> 10 * (ex_elp + ln 24 + 4 * ln 2)"
    using corrections_pos by simp
  show ?thesis using a b c d by blast
qed

text \<open>
  Claim C1, amended.  For a node with posteriors attached, setting
  \<^verbatim>\<open>minibatch_scale_factor\<close> to \<open>s\<close> instead of \<^verbatim>\<open>None\<close> multiplies both components of
  the base \<^verbatim>\<open>elbo_term()\<close> by \<open>s\<close>, and so for the overriding methods called with
  \<^verbatim>\<open>symmetry_correction_hack=False\<close>.  With \<^verbatim>\<open>symmetry_correction_hack=True\<close> the
  entropy is multiplied by \<open>s\<close> and the expected log-probability is \<open>s\<close> times the
  base value plus the correction, which is not scaled.  The store is not changed.
\<close>

theorem minibatch_scaling:
  assumes "self < length h" and "minibatch_scale_factor (h ! self) = None"
    and "\<forall>n c. elp (n\<lparr>minibatch_scale_factor := c\<rparr>) = elp n"
    and "elbo_term elp default_q self h = (Inr (e, ent), h1)"
    and "hs = h[self := (h ! self)\<lparr>minibatch_scale_factor := Some s\<rparr>]"
  shows "h1 = h
     \<and> elbo_term elp default_q self hs = (Inr (e * s, ent * s), hs)
     \<and> NGMP_elbo_term elp default_q False self hs = (Inr (e * s, ent * s), hs)
     \<and> NLF_elbo_term elp default_q False self hs = (Inr (e * s, ent * s), hs)
     \<and> GMM_elbo_term elp default_q False self hs = (Inr (e * s, ent * s), hs)
     \<and> NGMP_elbo_term elp default_q True self h
         = (Inr (e + permutation_correction (node_K (h ! self))
                   + signflip_correction (node_K (h ! self)), ent), h)
     \<and> NGMP_elbo_term elp default_q True self hs
         = (Inr (e * s + permutation_correction (node_K (h ! self))
                   + signflip_correction (node_K (h ! self)), ent * s), hs)
     \<and> NLF_elbo_term elp default_q True self hs
         = (Inr (e * s + permutation_correction (node_K (h ! self)), ent * s), hs)
     \<and> GMM_elbo_term elp default_q True self hs
         = (Inr (e * s + permutation_correction (node_n_clusters (h ! self)), ent * s), hs)"
proof -
  have h1: "h1 = h"
    using assms(4) elbo_term_default_q [of elp self h] by simp
  have q: "\<forall>p. q_dist (hs ! p) = q_dist (h ! p)"
    using assms(1,5) by (simp add: nth_list_update)
  have i: "fst (input_qs default_q (input_nodes (hs ! self)) hs)
         = fst (input_qs default_q (input_nodes (h ! self)) h)"
    using input_qs_default_cong [OF q] assms(1,5) by simp
  have n: "hs ! self = (h ! self)\<lparr>minibatch_scale_factor := Some s\<rparr>"
    using assms(1,5) by simp
  have el: "elp (hs ! self) = elp (h ! self)"
    using n assms(3) by simp
  have base: "elbo_term elp default_q self hs = (Inr (e * s, ent * s), hs)"
    using assms(4) assms(2) i el n q
    by (auto simp add: elbo_term_default_eq [of elp self h] elbo_term_default_eq [of elp self hs]
        split: sum.splits option.splits)
  have k: "node_K (hs ! self) = node_K (h ! self)"
    "node_n_clusters (hs ! self) = node_n_clusters (h ! self)"
    using n by simp_all
  show ?thesis
    using h1 base assms(4) k
    by (simp add: NGMP_elbo_term_def NLF_elbo_term_def GMM_elbo_term_def)
qed

theorem minibatch_scaling_witness:
  "3 < length (ex_ngmp None) \<and> minibatch_scale_factor (ex_ngmp None ! 3) = None
   \<and> (\<forall>n c. NGMP_expected_logp_kw ex_env (n\<lparr>minibatch_scale_factor := c\<rparr>)
              = NGMP_expected_logp_kw ex_env n)
   \<and> elbo_term (NGMP_expected_logp_kw ex_env) default_q 3 (ex_ngmp None)
       = (Inr (ex_elp, 2), ex_ngmp None)
   \<and> ex_ngmp (Some 10) = (ex_ngmp None)[3 := (ex_ngmp None ! 3)\<lparr>minibatch_scale_factor := Some 10\<rparr>]
   \<and> elbo_term (NGMP_expected_logp_kw ex_env) default_q 3 (ex_ngmp (Some 10))
       = (Inr (ex_elp * 10, 2 * 10), ex_ngmp (Some 10))
   \<and> NGMP_elbo_term (NGMP_expected_logp_kw ex_env) default_q True 3 (ex_ngmp (Some 10))
       = (Inr (ex_elp * 10 + permutation_correction 4 + signflip_correction 4, 2 * 10),
          ex_ngmp (Some 10))"
proof -
  have l: "3 < length (ex_ngmp None)" by (simp add: ex_ngmp_eq)
  have m: "minibatch_scale_factor (ex_ngmp None ! 3) = None" by (simp add: ex_ngmp_eq)
  have i: "\<forall>n c. NGMP_expected_logp_kw ex_env (n\<lparr>minibatch_scale_factor := c\<rparr>)
              = NGMP_expected_logp_kw ex_env n"
    using NGMP_elp_ignores_scale by blast
  have e: "elbo_term (NGMP_expected_logp_kw ex_env) default_q 3 (ex_ngmp None)
       = (Inr (ex_elp, 2), ex_ngmp None)"
    by (simp add: ex_elbo)
  have c: "ex_ngmp (Some 10) = (ex_ngmp None)[3 := (ex_ngmp None ! 3)\<lparr>minibatch_scale_factor := Some 10\<rparr>]"
    by (simp add: ex_ngmp_eq)
  have k: "node_K (ex_ngmp None ! 3) = 4" by (simp add: ex_ngmp_eq)
  show ?thesis
    using minibatch_scaling [OF l m i e c] l m i e c k by simp
qed

text \<open>
  Claim C8.  For \<open>K = 4\<close> the permutation correction is \<open>ln 24\<close> and the sign-flip
  correction \<open>4 ln 2\<close>; for three clusters the permutation correction is \<open>ln 6\<close>.
  Whenever the base method returns \<open>(e, ent)\<close>, with \<^verbatim>\<open>symmetry_correction_hack=True\<close>
  the matrix product returns \<open>e\<close> plus both corrections for its \<open>K\<close> (plus
  \<open>ln 24 + 4 ln 2\<close> for \<open>K = 4\<close>), the latent-feature node \<open>e\<close> plus the permutation
  correction for its \<open>K\<close>, and the mixture \<open>e\<close> plus the permutation correction for its
  \<open>n_clusters\<close> (plus \<open>ln 6\<close> for three clusters, which is what three centers give); the
  entropy \<open>ent\<close> is returned as it is in every case, and without the flag nothing is
  added.
\<close>

theorem symmetry_correction_constants:
  "permutation_correction 4 = ln 24
   \<and> signflip_correction 4 = 4 * ln 2
   \<and> permutation_correction 3 = ln 6
   \<and> (elbo_term elp dq self h = (Inr (e, ent), h1) \<and> node_K (h1 ! self) = 4 \<longrightarrow>
        NGMP_elbo_term elp dq True self h = (Inr (e + ln 24 + 4 * ln 2, ent), h1)
        \<and> NGMP_elbo_term elp dq False self h = (Inr (e, ent), h1)
        \<and> NLF_elbo_term elp dq True self h = (Inr (e + ln 24, ent), h1))
   \<and> (elbo_term elp dq self h = (Inr (e, ent), h1) \<and> node_n_clusters (h1 ! self) = 3 \<longrightarrow>
        GMM_elbo_term elp dq True self h = (Inr (e + ln 6, ent), h1)
        \<and> GMM_elbo_term elp dq False self h = (Inr (e, ent), h1))
   \<and> (elbo_term elp dq self h = (Inr (e, ent), h1) \<longrightarrow>
        NGMP_elbo_term elp dq True self h
          = (Inr (e + permutation_correction (node_K (h1 ! self))
                    + signflip_correction (node_K (h1 ! self)), ent), h1)
        \<and> NLF_elbo_term elp dq True self h
          = (Inr (e + permutation_correction (node_K (h1 ! self)), ent), h1)
        \<and> GMM_elbo_term elp dq True self h
          = (Inr (e + permutation_correction (node_n_clusters (h1 ! self)), ent), h1)
        \<and> NLF_elbo_term elp dq False self h = (Inr (e, ent), h1))
   \<and> node_n_clusters (ex_gmm ! 3) = 3
   \<and> GMM_elbo_term elp dq False self h = elbo_term elp dq self h"
proof -
  have a: "elbo_term elp dq self h = (Inr (e, ent), h1) \<and> node_K (h1 ! self) = 4 \<longrightarrow>
        NGMP_elbo_term elp dq True self h = (Inr (e + ln 24 + 4 * ln 2, ent), h1)
        \<and> NGMP_elbo_term elp dq False self h = (Inr (e, ent), h1)
        \<and> NLF_elbo_term elp dq True self h = (Inr (e + ln 24, ent), h1)"
    by (simp add: NGMP_elbo_term_def NLF_elbo_term_def perm4 sf4)
  have g: "elbo_term elp dq self h = (Inr (e, ent), h1) \<and> node_n_clusters (h1 ! self) = 3 \<longrightarrow>
        GMM_elbo_term elp dq True self h = (Inr (e + ln 6, ent), h1)
        \<and> GMM_elbo_term elp dq False self h = (Inr (e, ent), h1)"
    by (simp add: GMM_elbo_term_def perm3)
  have b: "elbo_term elp dq self h = (Inr (e, ent), h1) \<longrightarrow>
        NGMP_elbo_term elp dq True self h
          = (Inr (e + permutation_correction (node_K (h1 ! self))
                    + signflip_correction (node_K (h1 ! self)), ent), h1)
        \<and> NLF_elbo_term elp dq True self h
          = (Inr (e + permutation_correction (node_K (h1 ! self)), ent), h1)
        \<and> GMM_elbo_term elp dq True self h
          = (Inr (e + permutation_correction (node_n_clusters (h1 ! self)), ent), h1)
        \<and> NLF_elbo_term elp dq False self h = (Inr (e, ent), h1)"
    by (simp add: NGMP_elbo_term_def NLF_elbo_term_def GMM_elbo_term_def)
  have n: "node_n_clusters (ex_gmm ! 3) = 3"
    by (simp add: ex_gmm_eq)
  have f: "GMM_elbo_term elp dq False self h = elbo_term elp dq self h"
    by (simp add: GMM_elbo_term_def split: prod.splits sum.splits)
  show ?thesis using perm4 sf4 perm3 a g b n f by blast
qed

theorem symmetry_correction_constants_witness:
  "elbo_term (NGMP_expected_logp_kw ex_env) default_q 3 (ex_ngmp None)
     = (Inr (ex_elp, 2), ex_ngmp None)
   \<and> node_K (ex_ngmp None ! 3) = 4
   \<and> NGMP_elbo_term (NGMP_expected_logp_kw ex_env) default_q True 3 (ex_ngmp None)
        = (Inr (ex_elp + ln 24 + 4 * ln 2, 2), ex_ngmp None)
   \<and> NGMP_elbo_term (NGMP_expected_logp_kw ex_env) default_q False 3 (ex_ngmp None)
        = (Inr (ex_elp, 2), ex_ngmp None)
   \<and> elbo_term (default_expected_logp (GMM_logp_kw ex_env)) default_q 3 ex_gmm
        = (Inr (ex_gmm_elp, 3), ex_gmm)
   \<and> node_n_clusters (ex_gmm ! 3) = 3
   \<and> GMM_elbo_term (default_expected_logp (GMM_logp_kw ex_env)) default_q True 3 ex_gmm
        = (Inr (ex_gmm_elp + ln 6, 3), ex_gmm)
   \<and> GMM_elbo_term (default_expected_logp (GMM_logp_kw ex_env)) default_q False 3 ex_gmm
        = (Inr (ex_gmm_elp, 3), ex_gmm)"
proof -
  have e: "elbo_term (NGMP_expected_logp_kw ex_env) default_q 3 (ex_ngmp None)
     = (Inr (ex_elp, 2), ex_ngmp None)"
    by (simp add: ex_elbo)
  have k: "node_K (ex_ngmp None ! 3) = 4"
    by (simp add: ex_ngmp_eq)
  have n: "node_n_clusters (ex_gmm ! 3) = 3"
    by (simp add: ex_gmm_eq)
  from symmetry_correction_constants [of "NGMP_expected_logp_kw ex_env" default_q 3
        "ex_ngmp None" ex_elp 2 "ex_ngmp None"]
  have i1: "elbo_term (NGMP_expected_logp_kw ex_env) default_q 3 (ex_ngmp None)
              = (Inr (ex_elp, 2), ex_ngmp None) \<and> node_K (ex_ngmp None ! 3) = 4 \<longrightarrow>
        NGMP_elbo_term (NGMP_expected_logp_kw ex_env) default_q True 3 (ex_ngmp None)
          = (Inr (ex_elp + ln 24 + 4 * ln 2, 2), ex_ngmp None)
        \<and> NGMP_elbo_term (NGMP_expected_logp_kw ex_env) default_q False 3 (ex_ngmp None)
          = (Inr (ex_elp, 2), ex_ngmp None)
        \<and> NLF_elbo_term (NGMP_expected_logp_kw ex_env) default_q True 3 (ex_ngmp None)
          = (Inr (ex_elp + ln 24, 2), ex_ngmp None)"
    by blast
  from symmetry_correction_constants [of "default_expected_logp (GMM_logp_kw ex_env)" default_q 3
        ex_gmm ex_gmm_elp 3 ex_gmm]
  have i2: "elbo_term (default_expected_logp (GMM_logp_kw ex_env)) default_q 3 ex_gmm
              = (Inr (ex_gmm_elp, 3), ex_gmm) \<and> node_n_clusters (ex_gmm ! 3) = 3 \<longrightarrow>
        GMM_elbo_term (default_expected_logp (GMM_logp_kw ex_env)) default_q True 3 ex_gmm
          = (Inr (ex_gmm_elp + ln 6, 3), ex_gmm)
        \<and> GMM_elbo_term (default_expected_logp (GMM_logp_kw ex_env)) default_q False 3 ex_gmm
          = (Inr (ex_gmm_elp, 3), ex_gmm)"
    by blast
  have r1: "NGMP_elbo_term (NGMP_expected_logp_kw ex_env) default_q True 3 (ex_ngmp None)
          = (Inr (ex_elp + ln 24 + 4 * ln 2, 2), ex_ngmp None)
        \<and> NGMP_elbo_term (NGMP_expected_logp_kw ex_env) default_q False 3 (ex_ngmp None)
          = (Inr (ex_elp, 2), ex_ngmp None)
        \<and> NLF_elbo_term (NGMP_expected_logp_kw ex_env) default_q True 3 (ex_ngmp None)
          = (Inr (ex_elp + ln 24, 2), ex_ngmp None)"
    by (rule mp [OF i1]) (simp add: e k)
  have r2: "GMM_elbo_term (default_expected_logp (GMM_logp_kw ex_env)) default_q True 3 ex_gmm
          = (Inr (ex_gmm_elp + ln 6, 3), ex_gmm)
        \<and> GMM_elbo_term (default_expected_logp (GMM_logp_kw ex_env)) default_q False 3 ex_gmm
          = (Inr (ex_gmm_elp, 3), ex_gmm)"
    by (rule mp [OF i2]) (simp add: ex_gmm_elbo n)
  show ?thesis
    using e k n ex_gmm_elbo r1 r2 by simp
qed

section \<open>Rescaling in the matrix product\<close>













section \<open>Shape inference\<close>

text \<open>
  Claim C6.  The matrix product of \<open>A:(5,3)\<close> and \<open>B:(4,3)\<close> has shape \<open>(5,4)\<close>; with
  \<open>B:(4,2)\<close> the inner dimensions differ and shape inference fails; the cumulative sum of
  \<open>A:(6,2)\<close> has shape \<open>(6,2)\<close>.  In general, for \<open>A:(N,K)\<close> and \<open>B:(M,K2)\<close> the product
  shape is \<open>(N,M)\<close> exactly when \<open>K = K2\<close> (and inference fails otherwise), and the
  cumulative-sum node's shape is its input's shape.
\<close>

theorem shape_inference:
  "NGMP_compute_shape [5, 3] [4, 3] std_shape = Inr [5, 4]
   \<and> NGMP_compute_shape [5, 3] [4, 2] std_shape = Inl AssertionError
   \<and> NCS_compute_shape [6, 2] std_shape = Inr [6, 2]
   \<and> NGMP_compute_shape [N, K] [M, K2] std_shape =
       (if K = K2 then Inr [N, M] else Inl AssertionError)
   \<and> NCS_compute_shape A_shape std_shape = Inr A_shape"
  by (simp add: NCS_compute_shape_def)

end
